theory Spec2Isabelle
  imports Main
begin

section \<open>Values, exceptions and the object store\<close>

text \<open>
  The class \<open>Optional<T>\<close> of \<open>src/index.ts\<close> is embedded over an explicit object store,
  because several of its methods return \<open>this\<close> and others return \<open>new Optional(...)\<close>,
  and the difference is only visible through object identity.

  A JavaScript value is \<open>undefined\<close>, \<open>null\<close>, some other non-object value of the
  universe \<open>'a\<close>, or a reference to an \<open>Optional\<close> instance in the store.
\<close>

datatype 'a jsval = Undefined | Null | Prim 'a | Ref nat

text \<open>
  What a call can throw: \<open>Error m\<close> is the \<open>new Error(m)\<close> thrown by \<open>assertOn\<close>;
  \<open>TypeError\<close> is what the host raises when \<open>undefined\<close> or \<open>null\<close> is called as a
  function; \<open>Thrown v\<close> is a value \<open>v\<close> thrown by caller-supplied code (or handed over
  by it to be thrown, in \<open>orElseThrow\<close>).
\<close>

datatype 'a exn = Error string | TypeError | Thrown "'a jsval"

text \<open>An instance has the single field \<open>readonly value: T\<close>.\<close>

record 'a Optional =
  "value" :: "'a jsval"

text \<open>
  The program state: the store of \<open>Optional\<close> instances (\<open>objs\<close>, with \<open>next_ref\<close> the
  next unused address, so the instances created so far are the addresses below it), the
  state \<open>world\<close> of the calling program that its functions may read and write, and
  \<open>calls\<close>, a log of the invocations of caller-supplied functions made by the methods
  below (the name of the parameter that was called, and the arguments). The log is
  bookkeeping of the model: it is what "invoked exactly once" and "never invoked" are
  stated about.
\<close>

record ('a, 'w) state =
  objs :: "nat \<Rightarrow> 'a Optional"
  next_ref :: nat
  world :: 'w
  calls :: "(string \<times> 'a jsval list) list"

text \<open>
  A caller-supplied function takes its arguments and the state, and either throws a
  value (\<open>Inl\<close>) or returns one (\<open>Inr\<close>), with the state it leaves. A parameter that
  holds such a function is an \<open>option\<close>: \<open>None\<close> is \<open>undefined\<close>/\<open>null\<close> passed for it.
\<close>

type_synonym ('a, 'w, 'r) jsfun =
  "'a jsval list \<Rightarrow> ('a, 'w) state \<Rightarrow> ('a jsval + 'r) \<times> ('a, 'w) state"

text \<open>
  The call expression \<open>fn(args)\<close>: a \<open>TypeError\<close> when \<open>fn\<close> is not a function;
  otherwise the function runs, and the invocation is logged. The log of the state the
  function returns is not read: only the method's own calls are recorded.
\<close>

definition call ::
  "string \<Rightarrow> ('a, 'w, 'r) jsfun option \<Rightarrow> 'a jsval list \<Rightarrow> ('a, 'w) state
     \<Rightarrow> ('a exn + 'r) \<times> ('a, 'w) state" where
  "call name fn args s =
     (case fn of
        None \<Rightarrow> (Inl TypeError, s)
      | Some f \<Rightarrow>
          (case f args s of
             (Inl v, s') \<Rightarrow> (Inl (Thrown v), s'\<lparr>calls := calls s @ [(name, args)]\<rparr>)
           | (Inr r, s') \<Rightarrow> (Inr r, s'\<lparr>calls := calls s @ [(name, args)]\<rparr>)))"

section \<open>The helpers of the source file\<close>

definition isNullOrUndefined :: "'a jsval \<Rightarrow> bool" where
  "isNullOrUndefined v = (v = Undefined \<or> v = Null)"

definition assertOn :: "bool \<Rightarrow> string \<Rightarrow> 'a exn + unit" where
  "assertOn condition errorMessage =
     (if condition then Inl (Error errorMessage) else Inr ())"

section \<open>Construction\<close>

text \<open>The constructor \<open>new Optional(value)\<close>: a fresh instance, and the reference to it.\<close>

definition new_Optional :: "'a jsval \<Rightarrow> ('a, 'w) state \<Rightarrow> 'a jsval \<times> ('a, 'w) state" where
  "new_Optional v s =
     (Ref (next_ref s),
      s\<lparr>objs := (objs s)(next_ref s := \<lparr>value = v\<rparr>), next_ref := Suc (next_ref s)\<rparr>)"

definition ofNullable :: "'a jsval \<Rightarrow> ('a, 'w) state \<Rightarrow> 'a jsval \<times> ('a, 'w) state" where
  "ofNullable v s = new_Optional v s"

definition of_Optional ::
  "'a jsval \<Rightarrow> ('a, 'w) state \<Rightarrow> ('a exn + 'a jsval) \<times> ('a, 'w) state" where
  "of_Optional v s =
     (case assertOn (isNullOrUndefined v) ''NullPointerException : value is not defined'' of
        Inl e \<Rightarrow> (Inl e, s)
      | Inr _ \<Rightarrow> (case new_Optional v s of (r, s') \<Rightarrow> (Inr r, s')))"

definition empty_Optional :: "('a, 'w) state \<Rightarrow> 'a jsval \<times> ('a, 'w) state" where
  "empty_Optional s = new_Optional Undefined s"

section \<open>Queries\<close>

text \<open>Every method takes the address \<open>this\<close> of its receiver.\<close>

definition isEmpty :: "nat \<Rightarrow> ('a, 'w) state \<Rightarrow> bool" where
  "isEmpty this s = isNullOrUndefined (value (objs s this))"

definition isPresent :: "nat \<Rightarrow> ('a, 'w) state \<Rightarrow> bool" where
  "isPresent this s = (\<not> isEmpty this s)"

definition get :: "nat \<Rightarrow> ('a, 'w) state \<Rightarrow> ('a exn + 'a jsval) \<times> ('a, 'w) state" where
  "get this s =
     (case assertOn (isEmpty this s)
             ''Can not invoke get on Optional with null/undefined value'' of
        Inl e \<Rightarrow> (Inl e, s)
      | Inr _ \<Rightarrow> (Inr (value (objs s this)), s))"

section \<open>Inspection\<close>

definition ifPresent ::
  "('a, 'w, 'a jsval) jsfun option \<Rightarrow> nat \<Rightarrow> ('a, 'w) state
     \<Rightarrow> ('a exn + unit) \<times> ('a, 'w) state" where
  "ifPresent fn this s =
     (if isPresent this s then
        (case call ''fn'' fn [value (objs s this)] s of
           (Inl e, s') \<Rightarrow> (Inl e, s')
         | (Inr _, s') \<Rightarrow> (Inr (), s'))
      else (Inr (), s))"

definition ifPresentOrElse ::
  "('a, 'w, 'a jsval) jsfun option \<Rightarrow> ('a, 'w, 'a jsval) jsfun option \<Rightarrow> nat
     \<Rightarrow> ('a, 'w) state \<Rightarrow> ('a exn + unit) \<times> ('a, 'w) state" where
  "ifPresentOrElse nonEmptyFn emptyFn this s =
     (if isPresent this s then
        (case call ''nonEmptyFn'' nonEmptyFn [value (objs s this)] s of
           (Inl e, s') \<Rightarrow> (Inl e, s')
         | (Inr _, s') \<Rightarrow> (Inr (), s'))
      else
        (case call ''emptyFn'' emptyFn [] s of
           (Inl e, s') \<Rightarrow> (Inl e, s')
         | (Inr _, s') \<Rightarrow> (Inr (), s')))"

section \<open>Transformations\<close>

text \<open>
  In \<open>filter\<close> the field \<open>this.value\<close> is read twice: for the argument of the predicate,
  and again, after the predicate has returned, for the new instance.
\<close>

definition filter_Optional ::
  "('a, 'w, bool) jsfun option \<Rightarrow> nat \<Rightarrow> ('a, 'w) state
     \<Rightarrow> ('a exn + 'a jsval) \<times> ('a, 'w) state" where
  "filter_Optional fn this s =
     (if isEmpty this s then (Inr (Ref this), s)
      else
        (case call ''fn'' fn [value (objs s this)] s of
           (Inl e, s') \<Rightarrow> (Inl e, s')
         | (Inr b, s') \<Rightarrow>
             (case (if b then new_Optional (value (objs s' this)) s'
                    else new_Optional Undefined s') of
                (r, s'') \<Rightarrow> (Inr r, s''))))"

definition map_Optional ::
  "('a, 'w, 'a jsval) jsfun option \<Rightarrow> nat \<Rightarrow> ('a, 'w) state
     \<Rightarrow> ('a exn + 'a jsval) \<times> ('a, 'w) state" where
  "map_Optional fn this s =
     (if isEmpty this s then
        (case new_Optional Undefined s of (r, s') \<Rightarrow> (Inr r, s'))
      else
        (case call ''fn'' fn [value (objs s this)] s of
           (Inl e, s') \<Rightarrow> (Inl e, s')
         | (Inr v, s') \<Rightarrow> (case new_Optional v s' of (r, s'') \<Rightarrow> (Inr r, s''))))"

definition flatMap ::
  "('a, 'w, 'a jsval) jsfun option \<Rightarrow> nat \<Rightarrow> ('a, 'w) state
     \<Rightarrow> ('a exn + 'a jsval) \<times> ('a, 'w) state" where
  "flatMap fn this s =
     (if isEmpty this s then
        (case new_Optional Undefined s of (r, s') \<Rightarrow> (Inr r, s'))
      else
        (case call ''fn'' fn [value (objs s this)] s of
           (Inl e, s') \<Rightarrow> (Inl e, s')
         | (Inr result, s') \<Rightarrow>
             (case assertOn (isNullOrUndefined result)
                     ''Mapping function cannot return null/undefined value'' of
                Inl e \<Rightarrow> (Inl e, s')
              | Inr _ \<Rightarrow> (Inr result, s'))))"

section \<open>Fallbacks\<close>

definition orElse :: "'a jsval \<Rightarrow> nat \<Rightarrow> ('a, 'w) state \<Rightarrow> 'a jsval" where
  "orElse other this s = (if isPresent this s then value (objs s this) else other)"

definition orElseGet ::
  "('a, 'w, 'a jsval) jsfun option \<Rightarrow> nat \<Rightarrow> ('a, 'w) state
     \<Rightarrow> ('a exn + 'a jsval) \<times> ('a, 'w) state" where
  "orElseGet fn this s =
     (if isPresent this s then (Inr (value (objs s this)), s) else call ''fn'' fn [] s)"

definition or_Optional ::
  "('a, 'w, 'a jsval) jsfun option \<Rightarrow> nat \<Rightarrow> ('a, 'w) state
     \<Rightarrow> ('a exn + 'a jsval) \<times> ('a, 'w) state" where
  "or_Optional fn this s =
     (if isPresent this s then (Inr (Ref this), s)
      else
        (case call ''fn'' fn [] s of
           (Inl e, s') \<Rightarrow> (Inl e, s')
         | (Inr result, s') \<Rightarrow>
             (case assertOn (isNullOrUndefined result)
                     ''provided function returns null or undefined result'' of
                Inl e \<Rightarrow> (Inl e, s')
              | Inr _ \<Rightarrow> (Inr result, s'))))"

definition orElseThrow ::
  "('a, 'w, 'a jsval) jsfun option \<Rightarrow> nat \<Rightarrow> ('a, 'w) state
     \<Rightarrow> ('a exn + 'a jsval) \<times> ('a, 'w) state" where
  "orElseThrow fn this s =
     (if isPresent this s then (Inr (value (objs s this)), s)
      else
        (case call ''fn'' fn [] s of
           (Inl e, s') \<Rightarrow> (Inl e, s')
         | (Inr err, s') \<Rightarrow> (Inl (Thrown err), s')))"

section \<open>Iteration\<close>

text \<open>
  \<open>*[Symbol.iterator]()\<close> is a generator function: each call makes a new generator
  object, suspended at the start of the body. The generator holds its receiver and where
  it stands in the body: before the first statement, suspended at the \<open>yield\<close>, or
  completed. \<open>gen_next\<close> is the generator's \<open>next()\<close>: \<open>Some v\<close> is the iterator result
  \<open>{value: v, done: false}\<close>, \<open>None\<close> is \<open>{value: undefined, done: true}\<close>.
\<close>

datatype gen_pc = AtStart | AtYield | Completed

record generator =
  receiver :: nat
  pc :: gen_pc

definition Symbol_iterator :: "nat \<Rightarrow> generator" where
  "Symbol_iterator this = \<lparr>receiver = this, pc = AtStart\<rparr>"

definition gen_next :: "generator \<Rightarrow> ('a, 'w) state \<Rightarrow> 'a jsval option \<times> generator" where
  "gen_next g s =
     (case pc g of
        AtStart \<Rightarrow>
          (if isPresent (receiver g) s
           then (Some (value (objs s (receiver g))), g\<lparr>pc := AtYield\<rparr>)
           else (None, g\<lparr>pc := Completed\<rparr>))
      | AtYield \<Rightarrow> (None, g\<lparr>pc := Completed\<rparr>)
      | Completed \<Rightarrow> (None, g))"

text \<open>
  The loop \<open>for (const x of g) { ... }\<close> over a generator: \<open>next()\<close> is called until it
  reports \<open>done\<close>; the result is the list of the values the loop body was run with.
\<close>

function for_of_gen :: "generator \<Rightarrow> ('a, 'w) state \<Rightarrow> 'a jsval list" where
  "for_of_gen g s =
     (case gen_next g s of
        (None, g') \<Rightarrow> []
      | (Some v, g') \<Rightarrow> v # for_of_gen g' s)"
  by pat_completeness auto
termination
  by (relation "measure (\<lambda>(g, s). case pc g of AtStart \<Rightarrow> 2 | AtYield \<Rightarrow> 1 | Completed \<Rightarrow> 0)")
     (auto simp: gen_next_def split: gen_pc.splits if_splits)

declare for_of_gen.simps [simp del]

text \<open>\<open>for (const x of opt)\<close>: the loop over a new generator of the receiver.\<close>

definition for_of :: "nat \<Rightarrow> ('a, 'w) state \<Rightarrow> 'a jsval list" where
  "for_of this s = for_of_gen (Symbol_iterator this) s"

section \<open>All instance operations at once\<close>

text \<open>
  To speak about "every operation", the instance methods are collected in one datatype,
  with their arguments, and \<open>run\<close> dispatches to the method. The results are injected
  into one type.
\<close>

datatype ('a, 'w) operation =
    Get
  | IsEmpty
  | IsPresent
  | IfPresent "('a, 'w, 'a jsval) jsfun option"
  | IfPresentOrElse "('a, 'w, 'a jsval) jsfun option" "('a, 'w, 'a jsval) jsfun option"
  | Filter "('a, 'w, bool) jsfun option"
  | Map "('a, 'w, 'a jsval) jsfun option"
  | FlatMap "('a, 'w, 'a jsval) jsfun option"
  | OrElse "'a jsval"
  | OrElseGet "('a, 'w, 'a jsval) jsfun option"
  | Or "('a, 'w, 'a jsval) jsfun option"
  | OrElseThrow "('a, 'w, 'a jsval) jsfun option"
  | Iterate

datatype 'a retval = RValue "'a jsval" | RBool bool | RVoid | RYields "'a jsval list"

definition returning ::
  "('r \<Rightarrow> 'a retval) \<Rightarrow> ('a exn + 'r) \<times> ('a, 'w) state
     \<Rightarrow> ('a exn + 'a retval) \<times> ('a, 'w) state" where
  "returning f p = (case p of (Inl e, s) \<Rightarrow> (Inl e, s) | (Inr r, s) \<Rightarrow> (Inr (f r), s))"

fun run ::
  "('a, 'w) operation \<Rightarrow> nat \<Rightarrow> ('a, 'w) state \<Rightarrow> ('a exn + 'a retval) \<times> ('a, 'w) state"
  where
  "run Get this s = returning RValue (get this s)"
| "run IsEmpty this s = (Inr (RBool (isEmpty this s)), s)"
| "run IsPresent this s = (Inr (RBool (isPresent this s)), s)"
| "run (IfPresent fn) this s = returning (\<lambda>_. RVoid) (ifPresent fn this s)"
| "run (IfPresentOrElse f g) this s = returning (\<lambda>_. RVoid) (ifPresentOrElse f g this s)"
| "run (Filter fn) this s = returning RValue (filter_Optional fn this s)"
| "run (Map fn) this s = returning RValue (map_Optional fn this s)"
| "run (FlatMap fn) this s = returning RValue (flatMap fn this s)"
| "run (OrElse other) this s = (Inr (RValue (orElse other this s)), s)"
| "run (OrElseGet fn) this s = returning RValue (orElseGet fn this s)"
| "run (Or fn) this s = returning RValue (or_Optional fn this s)"
| "run (OrElseThrow fn) this s = returning RValue (orElseThrow fn this s)"
| "run Iterate this s = (Inr (RYields (for_of this s)), s)"

section \<open>The error kinds of the specification\<close>

text \<open>
  The source throws plain \<open>Error\<close> objects, told apart by their messages only. The
  specification names two kinds of error: \<open>NoSuchElement\<close>, the error of \<open>get\<close> on an
  empty container, and \<open>InvalidArgument\<close>, the error of the argument checks (\<open>of\<close> on an
  absent value, \<open>flatMap\<close> and \<open>or\<close> on an absent result of the supplied function). It
  speaks of a call error where the host fails to call something that is not a function.
  \<open>kind_of\<close> reads the kind off the exception.
\<close>

datatype error_kind = InvalidArgument | NoSuchElement | CallError | CallerError | OtherError

definition kind_of :: "'a exn \<Rightarrow> error_kind" where
  "kind_of e =
     (case e of
        Error m \<Rightarrow>
          (if m = ''Can not invoke get on Optional with null/undefined value''
             then NoSuchElement
           else if m = ''NullPointerException : value is not defined''
                 \<or> m = ''Mapping function cannot return null/undefined value''
                 \<or> m = ''provided function returns null or undefined result''
             then InvalidArgument
           else OtherError)
      | TypeError \<Rightarrow> CallError
      | Thrown v \<Rightarrow> CallerError)"

section \<open>Programs to test on\<close>

text \<open>The state of a program that has created no \<open>Optional\<close> yet.\<close>

definition init :: "'w \<Rightarrow> ('a, 'w) state" where
  "init w = \<lparr>objs = (\<lambda>_. \<lparr>value = Undefined\<rparr>), next_ref = 0, world = w, calls = []\<rparr>"

text \<open>
  \<open>const opt = Optional.ofNullable('hello')\<close> and \<open>const opt = Optional.empty()\<close>, each
  as the first statement of a program: \<open>opt\<close> is the reference to address 0. The world
  of these programs is a counter.
\<close>

definition hello :: "(string, nat) state" where
  "hello = snd (ofNullable (Prim ''hello'') (init 0))"

definition nothing :: "(string, nat) state" where
  "nothing = snd (empty_Optional (init 0))"

text \<open>
  Functions to pass: \<open>counting r\<close> increments the counter and returns \<open>r\<close>;
  \<open>making v\<close> is \<open>() => new Optional(v)\<close>; \<open>throwing v\<close> throws \<open>v\<close>.
\<close>

definition counting :: "'r \<Rightarrow> (string, nat, 'r) jsfun" where
  "counting r args s = (Inr r, s\<lparr>world := Suc (world s)\<rparr>)"

definition making :: "string jsval \<Rightarrow> (string, nat, string jsval) jsfun" where
  "making v args s = (case new_Optional v s of (r, s') \<Rightarrow> (Inr r, s'))"

definition throwing :: "string jsval \<Rightarrow> (string, nat, 'r) jsfun" where
  "throwing v args s = (Inl v, s)"

text \<open>
  Address 0 holds \<open>'hello'\<close> and address 1 is empty:
  \<open>const a = Optional.ofNullable('hello'); const b = Optional.empty()\<close>.
\<close>

definition hello_and_nothing :: "(string, nat) state" where
  "hello_and_nothing = snd (empty_Optional hello)"

text \<open>\<open>giving r\<close> is \<open>() => r\<close>, with no effect.\<close>

definition giving :: "'r \<Rightarrow> (string, nat, 'r) jsfun" where
  "giving r args s = (Inr r, s)"

section \<open>Functions that respect \<open>readonly\<close>\<close>

text \<open>
  The field \<open>value\<close> is declared \<open>readonly\<close>, so a caller's function that type-checks
  does not assign it. In the model a caller's function is any function on states;
  \<open>keeps_readonly\<close> says of one that it leaves every existing instance as it was (it may
  create new ones). \<open>args_keep_readonly\<close> says so of the functions passed to an
  operation.
\<close>

definition keeps_readonly :: "('a, 'w, 'r) jsfun \<Rightarrow> bool" where
  "keeps_readonly f \<longleftrightarrow>
     (\<forall>args s. next_ref s \<le> next_ref (snd (f args s))
        \<and> (\<forall>a. a < next_ref s \<longrightarrow> objs (snd (f args s)) a = objs s a))"

definition arg_keeps_readonly :: "('a, 'w, 'r) jsfun option \<Rightarrow> bool" where
  "arg_keeps_readonly fn = (case fn of None \<Rightarrow> True | Some f \<Rightarrow> keeps_readonly f)"

fun args_keep_readonly :: "('a, 'w) operation \<Rightarrow> bool" where
  "args_keep_readonly (IfPresent fn) = arg_keeps_readonly fn"
| "args_keep_readonly (IfPresentOrElse f g) = (arg_keeps_readonly f \<and> arg_keeps_readonly g)"
| "args_keep_readonly (Filter fn) = arg_keeps_readonly fn"
| "args_keep_readonly (Map fn) = arg_keeps_readonly fn"
| "args_keep_readonly (FlatMap fn) = arg_keeps_readonly fn"
| "args_keep_readonly (OrElseGet fn) = arg_keeps_readonly fn"
| "args_keep_readonly (Or fn) = arg_keeps_readonly fn"
| "args_keep_readonly (OrElseThrow fn) = arg_keeps_readonly fn"
| "args_keep_readonly _ = True"

text \<open>The store only grows: what existed in \<open>s\<close> is in \<open>s'\<close> as it was.\<close>

definition extends :: "('a, 'w) state \<Rightarrow> ('a, 'w) state \<Rightarrow> bool" where
  "extends s s' \<longleftrightarrow>
     next_ref s \<le> next_ref s' \<and> (\<forall>a. a < next_ref s \<longrightarrow> objs s' a = objs s a)"

text \<open>A reference to an instance that exists in \<open>s'\<close> and did not exist in \<open>s\<close>.\<close>

definition is_new :: "('a, 'w) state \<Rightarrow> ('a, 'w) state \<Rightarrow> 'a jsval \<Rightarrow> bool" where
  "is_new s s' x \<longleftrightarrow> (\<exists>n. x = Ref n \<and> next_ref s \<le> n \<and> n < next_ref s')"

section \<open>States that look the same through the operations\<close>

text \<open>
  \<open>undefined\<close> and \<open>null\<close> are both "no value". Two slots are alike when they hold the
  same value or are both absent; two states have the same view when they differ at most
  in which of the two absent values their empty slots hold. A caller's function is
  \<open>blind\<close> when it cannot tell such states apart: from states with the same view it gives
  the same outcome and leaves states with the same view.
\<close>

definition absent_alike :: "'a jsval \<Rightarrow> 'a jsval \<Rightarrow> bool" where
  "absent_alike x y \<longleftrightarrow> x = y \<or> (isNullOrUndefined x \<and> isNullOrUndefined y)"

definition same_view :: "('a, 'w) state \<Rightarrow> ('a, 'w) state \<Rightarrow> bool" where
  "same_view s t \<longleftrightarrow>
     next_ref s = next_ref t \<and> world s = world t \<and> calls s = calls t
     \<and> (\<forall>a. absent_alike (value (objs s a)) (value (objs t a)))"

definition blind :: "('a, 'w, 'r) jsfun \<Rightarrow> bool" where
  "blind f \<longleftrightarrow>
     (\<forall>args s t. same_view s t \<longrightarrow>
        fst (f args s) = fst (f args t) \<and> same_view (snd (f args s)) (snd (f args t)))"

definition arg_blind :: "('a, 'w, 'r) jsfun option \<Rightarrow> bool" where
  "arg_blind fn = (case fn of None \<Rightarrow> True | Some f \<Rightarrow> blind f)"

fun args_blind :: "('a, 'w) operation \<Rightarrow> bool" where
  "args_blind (IfPresent fn) = arg_blind fn"
| "args_blind (IfPresentOrElse f g) = (arg_blind f \<and> arg_blind g)"
| "args_blind (Filter fn) = arg_blind fn"
| "args_blind (Map fn) = arg_blind fn"
| "args_blind (FlatMap fn) = arg_blind fn"
| "args_blind (OrElseGet fn) = arg_blind fn"
| "args_blind (Or fn) = arg_blind fn"
| "args_blind (OrElseThrow fn) = arg_blind fn"
| "args_blind _ = True"

text \<open>Two outcomes are alike: the same result, and states with the same view.\<close>

definition alike :: "'r \<times> ('a, 'w) state \<Rightarrow> 'r \<times> ('a, 'w) state \<Rightarrow> bool" where
  "alike p q \<longleftrightarrow> fst p = fst q \<and> same_view (snd p) (snd q)"

section \<open>Basic facts\<close>

lemma isNullOrUndefined_simps [simp]:
  "isNullOrUndefined Undefined" "isNullOrUndefined Null"
  "\<not> isNullOrUndefined (Prim x)" "\<not> isNullOrUndefined (Ref r)"
  by (simp_all add: isNullOrUndefined_def)

lemma call_None: "call name None args s = (Inl TypeError, s)"
  by (simp add: call_def)

lemma call_Some:
  "call name (Some f) args s =
     ((case fst (f args s) of Inl v \<Rightarrow> Inl (Thrown v) | Inr r \<Rightarrow> Inr r),
      (snd (f args s))\<lparr>calls := calls s @ [(name, args)]\<rparr>)"
  by (simp add: call_def split: prod.splits sum.splits)

lemma call_error_kind:
  "call name fn args s = (Inl e, s') \<Longrightarrow> e = TypeError \<or> (\<exists>v. e = Thrown v)"
  by (cases fn) (auto simp: call_None call_Some split: sum.splits)

lemma kind_of_simps:
  "kind_of TypeError = CallError"
  "kind_of (Thrown v) = CallerError"
  "kind_of (Error ''Can not invoke get on Optional with null/undefined value'') = NoSuchElement"
  "kind_of (Error ''NullPointerException : value is not defined'') = InvalidArgument"
  "kind_of (Error ''Mapping function cannot return null/undefined value'') = InvalidArgument"
  "kind_of (Error ''provided function returns null or undefined result'') = InvalidArgument"
  by (simp_all add: kind_of_def)

lemma hello_simps:
  "objs hello 0 = \<lparr>value = Prim ''hello''\<rparr>" "next_ref hello = 1" "world hello = 0"
  "calls hello = []" "isPresent 0 hello" "\<not> isEmpty 0 hello"
  by (simp_all add: hello_def ofNullable_def new_Optional_def init_def isPresent_def isEmpty_def)

lemma nothing_simps:
  "objs nothing 0 = \<lparr>value = Undefined\<rparr>" "next_ref nothing = 1" "world nothing = 0"
  "calls nothing = []" "isEmpty 0 nothing" "\<not> isPresent 0 nothing"
  by (simp_all add: nothing_def empty_Optional_def new_Optional_def init_def isPresent_def
      isEmpty_def)

lemma run_not_NoSuchElement:
  assumes "run op this s = (Inl e, s')" and "op \<noteq> Get"
  shows "kind_of e \<noteq> NoSuchElement"
proof (cases op)
  case Get
  with assms show ?thesis by simp
next
  case (IfPresent fn)
  with assms show ?thesis
    by (auto simp: returning_def ifPresent_def kind_of_simps
        split: if_splits prod.splits sum.splits dest!: call_error_kind)
next
  case (IfPresentOrElse f g)
  with assms show ?thesis
    by (auto simp: returning_def ifPresentOrElse_def kind_of_simps
        split: if_splits prod.splits sum.splits dest!: call_error_kind)
next
  case (Filter fn)
  with assms show ?thesis
    by (auto simp: returning_def filter_Optional_def kind_of_simps
        split: if_splits prod.splits sum.splits dest!: call_error_kind)
next
  case (Map fn)
  with assms show ?thesis
    by (auto simp: returning_def map_Optional_def kind_of_simps
        split: if_splits prod.splits sum.splits dest!: call_error_kind)
next
  case (FlatMap fn)
  with assms show ?thesis
    by (auto simp: returning_def flatMap_def assertOn_def kind_of_simps
        split: if_splits prod.splits sum.splits dest!: call_error_kind)
next
  case (OrElseGet fn)
  with assms show ?thesis
    by (auto simp: returning_def orElseGet_def kind_of_simps
        split: if_splits prod.splits sum.splits dest!: call_error_kind)
next
  case (Or fn)
  with assms show ?thesis
    by (auto simp: returning_def or_Optional_def assertOn_def kind_of_simps
        split: if_splits prod.splits sum.splits dest!: call_error_kind)
next
  case (OrElseThrow fn)
  with assms show ?thesis
    by (auto simp: returning_def orElseThrow_def kind_of_simps
        split: if_splits prod.splits sum.splits dest!: call_error_kind)
qed (use assms in auto)

section \<open>Construction with \<open>of\<close>\<close>

text \<open>
  Claim C7. \<open>of(value)\<close> fails exactly when \<open>value\<close> is \<open>undefined\<close> or \<open>null\<close>, and then
  with the error of kind \<open>InvalidArgument\<close>, leaving the state as it was. For every other
  \<open>v\<close> it returns a reference to a new instance, on which \<open>get()\<close> returns \<open>v\<close> and
  \<open>isPresent()\<close> is true.
\<close>

theorem of_Optional_correct:
  "((\<exists>e s'. of_Optional v s = (Inl e, s')) \<longleftrightarrow> isNullOrUndefined v)
   \<and> ((\<exists>e s'. of_Optional v s = (Inl e, s') \<and> kind_of e = InvalidArgument)
        \<longleftrightarrow> isNullOrUndefined v)
   \<and> (isNullOrUndefined v \<longrightarrow>
        of_Optional v s = (Inl (Error ''NullPointerException : value is not defined''), s))
   \<and> (\<not> isNullOrUndefined v \<longrightarrow>
        (\<exists>r s'. of_Optional v s = (Inr (Ref r), s')
           \<and> r = next_ref s \<and> s' = snd (new_Optional v s)
           \<and> get r s' = (Inr v, s') \<and> isPresent r s' \<and> \<not> isEmpty r s'))"
  by (auto simp: of_Optional_def assertOn_def kind_of_simps new_Optional_def get_def
      isPresent_def isEmpty_def)

theorem of_Optional_correct_witness:
  "of_Optional (Prim ''hello'') (init (0::nat)) = (Inr (Ref 0), hello)
   \<and> get 0 hello = (Inr (Prim ''hello''), hello)
   \<and> isPresent 0 hello
   \<and> of_Optional Undefined (init (0::nat)) =
       (Inl (Error ''NullPointerException : value is not defined'' :: string exn), init 0)
   \<and> of_Optional Null (init (0::nat)) =
       (Inl (Error ''NullPointerException : value is not defined'' :: string exn), init 0)"
  using of_Optional_correct [of "Prim ''hello''" "init (0::nat)"]
    of_Optional_correct [of "Undefined :: string jsval" "init (0::nat)"]
    of_Optional_correct [of "Null :: string jsval" "init (0::nat)"]
  by (auto simp: hello_def ofNullable_def init_def)

section \<open>\<open>get\<close>\<close>

text \<open>
  Claim C2. \<open>get()\<close> on an empty container throws its error, of kind \<open>NoSuchElement\<close>,
  and on a present container it returns the held value; in both cases the state is left
  as it was. It fails if and only if the container is empty. No other instance
  operation, and no factory, fails with an error of that kind (\<open>ofNullable\<close> and \<open>empty\<close>
  cannot fail at all: their results have no error part). What the other operations
  raise themselves is the host's \<open>TypeError\<close> or an \<open>Error\<close> with another message; what a
  caller's function throws is passed on as the caller's (\<open>Thrown\<close>), whatever it is.
\<close>

theorem get_correct:
  "(isEmpty this s \<longrightarrow>
      get this s = (Inl (Error ''Can not invoke get on Optional with null/undefined value''), s))
   \<and> (isPresent this s \<longrightarrow> get this s = (Inr (value (objs s this)), s))
   \<and> ((\<exists>e s'. get this s = (Inl e, s') \<and> kind_of e = NoSuchElement) \<longleftrightarrow> isEmpty this s)
   \<and> ((\<exists>e s'. get this s = (Inl e, s')) \<longleftrightarrow> isEmpty this s)
   \<and> (\<forall>op e s'. op \<noteq> Get \<longrightarrow> run op this s = (Inl e, s') \<longrightarrow> kind_of e \<noteq> NoSuchElement)
   \<and> (\<forall>v e s'. of_Optional v s = (Inl e, s') \<longrightarrow> kind_of e \<noteq> NoSuchElement)"
proof -
  have a: "isEmpty this s \<longrightarrow>
      get this s = (Inl (Error ''Can not invoke get on Optional with null/undefined value''), s)"
    by (simp add: get_def assertOn_def)
  have b: "isPresent this s \<longrightarrow> get this s = (Inr (value (objs s this)), s)"
    by (simp add: get_def assertOn_def isPresent_def)
  have c: "(\<exists>e s'. get this s = (Inl e, s') \<and> kind_of e = NoSuchElement) \<longleftrightarrow> isEmpty this s"
    by (auto simp: get_def assertOn_def kind_of_simps)
  have d: "(\<exists>e s'. get this s = (Inl e, s')) \<longleftrightarrow> isEmpty this s"
    by (auto simp: get_def assertOn_def)
  have e: "\<forall>op e s'. op \<noteq> Get \<longrightarrow> run op this s = (Inl e, s') \<longrightarrow> kind_of e \<noteq> NoSuchElement"
    using run_not_NoSuchElement by blast
  have f: "\<forall>v e s'. of_Optional v s = (Inl e, s') \<longrightarrow> kind_of e \<noteq> NoSuchElement"
    by (auto simp: of_Optional_def assertOn_def kind_of_simps split: if_splits prod.splits)
  from a b c d e f show ?thesis by blast
qed

theorem get_correct_witness:
  "isEmpty 0 nothing
   \<and> get 0 nothing =
       (Inl (Error ''Can not invoke get on Optional with null/undefined value''), nothing)
   \<and> isPresent 0 hello
   \<and> get 0 hello = (Inr (Prim ''hello''), hello)
   \<and> run (OrElseThrow (Some (counting (Prim ''Throw up'')))) 0 nothing =
       (Inl (Thrown (Prim ''Throw up'')), nothing\<lparr>world := 1, calls := [(''fn'', [])]\<rparr>)
   \<and> kind_of (Thrown (Prim ''Throw up'')) \<noteq> NoSuchElement"
proof -
  have thrown: "run (OrElseThrow (Some (counting (Prim ''Throw up'')))) 0 nothing =
       (Inl (Thrown (Prim ''Throw up'')), nothing\<lparr>world := 1, calls := [(''fn'', [])]\<rparr>)"
    by (simp add: nothing_simps returning_def orElseThrow_def call_Some counting_def)
  have "OrElseThrow (Some (counting (Prim ''Throw up''))) \<noteq> Get"
    by simp
  with thrown get_correct [of 0 nothing]
  have "kind_of (Thrown (Prim ''Throw up'') :: string exn) \<noteq> NoSuchElement"
    by blast
  with thrown get_correct [of 0 nothing] get_correct [of 0 hello] show ?thesis
    by (simp add: hello_simps nothing_simps)
qed

section \<open>\<open>ifPresent\<close>\<close>

text \<open>
  Claim C1, amended. \<open>ifPresent\<close> does not check its argument. With no consumer
  (\<open>undefined\<close> or \<open>null\<close> passed for it) the call fails only on a present container, and
  then with the host's \<open>TypeError\<close> for calling what is not a function, a call error and
  not an \<open>InvalidArgument\<close>; the state is left as it was. On an empty container
  \<open>ifPresent\<close> returns without an error and without invoking anything, whether a consumer
  was supplied or not. On a present container with a consumer supplied, the consumer is
  invoked exactly once, with the held value: the state returned is the one the consumer
  leaves, with that one invocation added to the log; what the consumer returns is
  dropped, and what it throws is passed on.
\<close>

theorem ifPresent_correct:
  "(isPresent this s \<longrightarrow> ifPresent None this s = (Inl TypeError, s))
   \<and> kind_of (TypeError :: 'a exn) = CallError
   \<and> (isEmpty this s \<longrightarrow> ifPresent fn this s = (Inr (), s))
   \<and> (isPresent this s \<longrightarrow>
        ifPresent (Some f) this s =
          ((case fst (f [value (objs s this)] s) of
              Inl v \<Rightarrow> Inl (Thrown v)
            | Inr r \<Rightarrow> Inr ()),
           (snd (f [value (objs s this)] s))
             \<lparr>calls := calls s @ [(''fn'', [value (objs s this)])]\<rparr>))"
  for s :: "('a, 'w) state"
  by (auto simp: ifPresent_def call_None call_Some kind_of_simps isPresent_def
      split: sum.splits)

theorem ifPresent_correct_witness:
  "isPresent 0 hello
   \<and> ifPresent (Some (counting Undefined)) 0 hello =
       (Inr (), hello\<lparr>world := 1, calls := [(''fn'', [Prim ''hello''])]\<rparr>)
   \<and> ifPresent None 0 hello = (Inl TypeError, hello)
   \<and> isEmpty 0 nothing
   \<and> ifPresent (Some (counting Undefined)) 0 nothing = (Inr (), nothing)
   \<and> ifPresent None 0 nothing = (Inr (), nothing)"
  using ifPresent_correct [where this = 0 and s = hello and f = "counting Undefined"]
    ifPresent_correct [where this = 0 and s = nothing and fn = "Some (counting Undefined)"]
    ifPresent_correct [where this = 0 and s = nothing and fn = None]
  by (simp add: hello_simps nothing_simps counting_def)

text \<open>
  Claim C1 as it is written fails on \<open>Optional.empty().ifPresent(undefined)\<close>, which
  returns without an error; and on \<open>Optional.ofNullable('hello').ifPresent(undefined)\<close>
  the failure is the host's \<open>TypeError\<close>, which is not of kind \<open>InvalidArgument\<close>.
\<close>

theorem ifPresent_absent_consumer_counterexample:
  "isEmpty 0 nothing
   \<and> ifPresent None 0 nothing = (Inr (), nothing)
   \<and> isPresent 0 hello
   \<and> ifPresent None 0 hello = (Inl TypeError, hello)
   \<and> kind_of (TypeError :: string exn) \<noteq> InvalidArgument"
  by (simp add: ifPresent_def hello_simps nothing_simps call_None kind_of_simps)

section \<open>\<open>or\<close>\<close>

text \<open>
  Claim C3, amended. On a present container \<open>or\<close> returns the reference to the receiver
  itself and leaves the state as it was, so the supplier is not invoked (and not looked
  at: it may be absent). On an empty container with a supplier, the supplier is invoked
  exactly once, with no arguments; if it returns \<open>undefined\<close> or \<open>null\<close> the call fails
  with the error of kind \<open>InvalidArgument\<close>, otherwise its result is returned as it is.
  With no supplier, the call on an empty container fails with the host's \<open>TypeError\<close>, a
  call error and not an \<open>InvalidArgument\<close>.
\<close>

theorem or_Optional_correct:
  "(isPresent this s \<longrightarrow> or_Optional fn this s = (Inr (Ref this), s))
   \<and> (isEmpty this s \<longrightarrow>
        or_Optional (Some f) this s =
          ((case fst (f [] s) of
              Inl v \<Rightarrow> Inl (Thrown v)
            | Inr result \<Rightarrow>
                if isNullOrUndefined result
                then Inl (Error ''provided function returns null or undefined result'')
                else Inr result),
           (snd (f [] s))\<lparr>calls := calls s @ [(''fn'', [])]\<rparr>))
   \<and> kind_of (Error ''provided function returns null or undefined result'' :: 'a exn)
         = InvalidArgument
   \<and> (isEmpty this s \<longrightarrow> or_Optional None this s = (Inl TypeError, s))
   \<and> kind_of (TypeError :: 'a exn) = CallError"
  for s :: "('a, 'w) state"
  by (auto simp: or_Optional_def call_None call_Some kind_of_simps assertOn_def isPresent_def
      split: sum.splits)

theorem or_Optional_correct_witness:
  "isPresent 0 hello
   \<and> or_Optional (Some (making (Prim ''goodbye''))) 0 hello = (Inr (Ref 0), hello)
   \<and> isEmpty 0 nothing
   \<and> or_Optional (Some (making (Prim ''hello''))) 0 nothing =
       (Inr (Ref 1),
        nothing\<lparr>objs := (objs nothing)(1 := \<lparr>value = Prim ''hello''\<rparr>), next_ref := 2,
                calls := [(''fn'', [])]\<rparr>)
   \<and> or_Optional (Some (counting Undefined)) 0 nothing =
       (Inl (Error ''provided function returns null or undefined result''),
        nothing\<lparr>world := 1, calls := [(''fn'', [])]\<rparr>)
   \<and> or_Optional None 0 nothing = (Inl TypeError, nothing)"
  using or_Optional_correct [where this = 0 and s = hello
      and fn = "Some (making (Prim ''goodbye''))"]
    or_Optional_correct [where this = 0 and s = nothing and f = "making (Prim ''hello'')"]
    or_Optional_correct [where this = 0 and s = nothing and f = "counting Undefined"]
  by (simp add: hello_simps nothing_simps counting_def making_def new_Optional_def)

text \<open>
  Claim C3 as it is written fails on \<open>Optional.empty().or(undefined)\<close>: the failure is the
  host's \<open>TypeError\<close> of the call \<open>fn()\<close>, which is not of kind \<open>InvalidArgument\<close>; the
  check of the result is never reached.
\<close>

theorem or_Optional_no_function_counterexample:
  "isEmpty 0 nothing
   \<and> or_Optional None 0 nothing = (Inl TypeError, nothing)
   \<and> kind_of (TypeError :: string exn) \<noteq> InvalidArgument"
  by (simp add: or_Optional_def nothing_simps call_None kind_of_simps)

section \<open>\<open>filter\<close>\<close>

text \<open>
  Claim C4. On an empty container \<open>filter\<close> returns the reference to the receiver itself
  and leaves the state as it was, so the predicate is not invoked. On a present container
  the predicate is invoked exactly once, with the held value. If the predicate returns
  \<open>b\<close>, the result is a reference to a new instance: empty if \<open>b\<close> is false; if \<open>b\<close> is
  true it holds what the receiver holds when the predicate has returned, which, the
  predicate having left the \<open>readonly\<close> field of the receiver as it was, is the held
  value: the new container is present and \<open>get()\<close> on it returns that value.
\<close>

theorem filter_Optional_correct:
  "(isEmpty this s \<longrightarrow> filter_Optional fn this s = (Inr (Ref this), s))
   \<and> (isPresent this s \<longrightarrow>
        calls (snd (filter_Optional (Some f) this s)) =
          calls s @ [(''fn'', [value (objs s this)])])
   \<and> (isPresent this s \<longrightarrow> f [value (objs s this)] s = (Inr b, s') \<longrightarrow>
        (\<exists>r s''. filter_Optional (Some f) this s = (Inr (Ref r), s'')
           \<and> r = next_ref s'
           \<and> value (objs s'' r) = (if b then value (objs s' this) else Undefined)
           \<and> (\<not> b \<longrightarrow> isEmpty r s'')
           \<and> (objs s' this = objs s this \<longrightarrow> b \<longrightarrow>
                 isPresent r s'' \<and> value (objs s'' r) = value (objs s this)
                 \<and> get r s'' = (Inr (value (objs s this)), s''))))"
  by (auto simp: filter_Optional_def call_Some new_Optional_def isPresent_def isEmpty_def
        get_def assertOn_def
      split: sum.splits prod.splits)

theorem filter_Optional_correct_witness:
  "isEmpty 0 nothing
   \<and> filter_Optional (Some (counting False)) 0 nothing = (Inr (Ref 0), nothing)
   \<and> isPresent 0 hello
   \<and> filter_Optional (Some (counting True)) 0 hello =
       (Inr (Ref 1),
        hello\<lparr>objs := (objs hello)(1 := \<lparr>value = Prim ''hello''\<rparr>), next_ref := 2,
              world := 1, calls := [(''fn'', [Prim ''hello''])]\<rparr>)
   \<and> filter_Optional (Some (counting False)) 0 hello =
       (Inr (Ref 1),
        hello\<lparr>objs := (objs hello)(1 := \<lparr>value = Undefined\<rparr>), next_ref := 2,
              world := 1, calls := [(''fn'', [Prim ''hello''])]\<rparr>)"
  using filter_Optional_correct [where this = 0 and s = nothing and fn = "Some (counting False)"]
    filter_Optional_correct [where this = 0 and s = hello and f = "counting True" and b = True
      and s' = "hello\<lparr>world := 1\<rparr>"]
    filter_Optional_correct [where this = 0 and s = hello and f = "counting False" and b = False
      and s' = "hello\<lparr>world := 1\<rparr>"]
  by (auto simp: hello_simps nothing_simps counting_def new_Optional_def filter_Optional_def
      call_Some)

section \<open>\<open>map\<close>\<close>

text \<open>
  Claim C5. On an empty container \<open>map\<close> returns a reference to a new empty instance
  (at an address that was unused, so it is not the receiver) and the mapper is not
  invoked: the log is as it was. On a present container the mapper is invoked exactly
  once, with the held value; if it returns \<open>u\<close>, the result is a reference to a new
  instance holding \<open>u\<close>, which is empty if \<open>u\<close> is \<open>undefined\<close> or \<open>null\<close> (no error is
  raised) and present otherwise.
\<close>

theorem map_Optional_correct:
  "(isEmpty this s \<longrightarrow>
      map_Optional fn this s = (Inr (Ref (next_ref s)), snd (new_Optional Undefined s))
      \<and> isEmpty (next_ref s) (snd (new_Optional Undefined s))
      \<and> calls (snd (new_Optional Undefined s)) = calls s
      \<and> (this < next_ref s \<longrightarrow> next_ref s \<noteq> this))
   \<and> (isPresent this s \<longrightarrow>
        calls (snd (map_Optional (Some f) this s)) =
          calls s @ [(''fn'', [value (objs s this)])])
   \<and> (isPresent this s \<longrightarrow> f [value (objs s this)] s = (Inr u, s') \<longrightarrow>
        (\<exists>r s''. map_Optional (Some f) this s = (Inr (Ref r), s'')
           \<and> r = next_ref s'
           \<and> value (objs s'' r) = u
           \<and> (isNullOrUndefined u \<longrightarrow> isEmpty r s'')
           \<and> (\<not> isNullOrUndefined u \<longrightarrow> isPresent r s'' \<and> get r s'' = (Inr u, s''))))"
  by (auto simp: map_Optional_def call_Some new_Optional_def isPresent_def isEmpty_def
        get_def assertOn_def
      split: sum.splits prod.splits)

theorem map_Optional_correct_witness:
  "isEmpty 0 nothing
   \<and> map_Optional (Some (counting (Prim ''goodbye''))) 0 nothing =
       (Inr (Ref 1),
        nothing\<lparr>objs := (objs nothing)(1 := \<lparr>value = Undefined\<rparr>), next_ref := 2\<rparr>)
   \<and> isPresent 0 hello
   \<and> map_Optional (Some (counting (Prim ''goodbye''))) 0 hello =
       (Inr (Ref 1),
        hello\<lparr>objs := (objs hello)(1 := \<lparr>value = Prim ''goodbye''\<rparr>), next_ref := 2,
              world := 1, calls := [(''fn'', [Prim ''hello''])]\<rparr>)
   \<and> map_Optional (Some (counting Undefined)) 0 hello =
       (Inr (Ref 1),
        hello\<lparr>objs := (objs hello)(1 := \<lparr>value = Undefined\<rparr>), next_ref := 2,
              world := 1, calls := [(''fn'', [Prim ''hello''])]\<rparr>)"
  using map_Optional_correct [where this = 0 and s = nothing
      and fn = "Some (counting (Prim ''goodbye''))"]
    map_Optional_correct [where this = 0 and s = hello and f = "counting (Prim ''goodbye'')"
      and u = "Prim ''goodbye''" and s' = "hello\<lparr>world := 1\<rparr>"]
    map_Optional_correct [where this = 0 and s = hello and f = "counting Undefined"
      and u = Undefined and s' = "hello\<lparr>world := 1\<rparr>"]
  by (auto simp: hello_simps nothing_simps counting_def new_Optional_def map_Optional_def
      call_Some)

section \<open>\<open>flatMap\<close>\<close>

text \<open>
  Claim C6. On an empty container \<open>flatMap\<close> returns a reference to a new empty instance
  and the mapper is not invoked. On a present container the mapper is invoked exactly
  once, with the held value; the call fails with the error of kind \<open>InvalidArgument\<close> if
  and only if the mapper returned \<open>undefined\<close> or \<open>null\<close>; any other result of the mapper
  (a reference to an empty container included) is returned as it is, and nothing is
  created.
\<close>

theorem flatMap_correct:
  "(isEmpty this s \<longrightarrow>
      flatMap fn this s = (Inr (Ref (next_ref s)), snd (new_Optional Undefined s))
      \<and> isEmpty (next_ref s) (snd (new_Optional Undefined s))
      \<and> calls (snd (new_Optional Undefined s)) = calls s
      \<and> (this < next_ref s \<longrightarrow> next_ref s \<noteq> this))
   \<and> (isPresent this s \<longrightarrow>
        flatMap (Some f) this s =
          ((case fst (f [value (objs s this)] s) of
              Inl v \<Rightarrow> Inl (Thrown v)
            | Inr result \<Rightarrow>
                if isNullOrUndefined result
                then Inl (Error ''Mapping function cannot return null/undefined value'')
                else Inr result),
           (snd (f [value (objs s this)] s))
             \<lparr>calls := calls s @ [(''fn'', [value (objs s this)])]\<rparr>))
   \<and> (isPresent this s \<longrightarrow>
        ((\<exists>e s'. flatMap fn this s = (Inl e, s') \<and> kind_of e = InvalidArgument)
          \<longleftrightarrow> (\<exists>g result. fn = Some g \<and> fst (g [value (objs s this)] s) = Inr result
                 \<and> isNullOrUndefined result)))
   \<and> (isPresent this s \<longrightarrow> flatMap None this s = (Inl TypeError, s))"
  by (cases fn)
     (auto simp: flatMap_def call_None call_Some new_Optional_def isPresent_def isEmpty_def
        assertOn_def kind_of_simps
      split: sum.splits prod.splits)

theorem flatMap_correct_witness:
  "isEmpty 0 nothing
   \<and> flatMap (Some (making (Prim ''flatMap''))) 0 nothing =
       (Inr (Ref 1),
        nothing\<lparr>objs := (objs nothing)(1 := \<lparr>value = Undefined\<rparr>), next_ref := 2\<rparr>)
   \<and> isPresent 0 hello
   \<and> flatMap (Some (making (Prim ''flatMap''))) 0 hello =
       (Inr (Ref 1),
        hello\<lparr>objs := (objs hello)(1 := \<lparr>value = Prim ''flatMap''\<rparr>), next_ref := 2,
              calls := [(''fn'', [Prim ''hello''])]\<rparr>)
   \<and> flatMap (Some (making Undefined)) 0 hello =
       (Inr (Ref 1),
        hello\<lparr>objs := (objs hello)(1 := \<lparr>value = Undefined\<rparr>), next_ref := 2,
              calls := [(''fn'', [Prim ''hello''])]\<rparr>)
   \<and> flatMap (Some (counting Undefined)) 0 hello =
       (Inl (Error ''Mapping function cannot return null/undefined value''),
        hello\<lparr>world := 1, calls := [(''fn'', [Prim ''hello''])]\<rparr>)"
  using flatMap_correct [where this = 0 and s = nothing
      and fn = "Some (making (Prim ''flatMap''))"]
    flatMap_correct [where this = 0 and s = hello and f = "making (Prim ''flatMap'')"]
    flatMap_correct [where this = 0 and s = hello and f = "making Undefined"]
    flatMap_correct [where this = 0 and s = hello and f = "counting Undefined"]
  by (auto simp: hello_simps nothing_simps counting_def making_def new_Optional_def
      flatMap_def call_Some assertOn_def)

section \<open>Iteration\<close>

lemma for_of_present: "isPresent this s \<Longrightarrow> for_of this s = [value (objs s this)]"
  unfolding for_of_def Symbol_iterator_def
  apply (subst for_of_gen.simps)
  apply (simp add: gen_next_def)
  apply (subst for_of_gen.simps)
  apply (simp add: gen_next_def)
  done

lemma for_of_empty: "isEmpty this s \<Longrightarrow> for_of this s = []"
  unfolding for_of_def Symbol_iterator_def
  apply (subst for_of_gen.simps)
  apply (simp add: gen_next_def isPresent_def)
  done

text \<open>
  Claim C8. A loop over a present container runs once, with the held value, and ends; a
  loop over an empty container does not run. Two loops over the same present container
  run twice in total, each time with the value; any number of loops over an empty
  container run zero times. Every request for an iterator gives a generator at its start:
  the position of a traversal is kept in its generator, and \<open>gen_next\<close> and \<open>for_of\<close>
  return no state, so they leave the container and the other generators as they were.
  The generator yields the value once and is completed at the next request, and stays
  completed.
\<close>

theorem for_of_correct:
  "(isPresent this s \<longrightarrow> for_of this s = [value (objs s this)])
   \<and> (isEmpty this s \<longrightarrow> for_of this s = [])
   \<and> (isPresent this s \<longrightarrow>
        concat (replicate 2 (for_of this s)) = [value (objs s this), value (objs s this)]
        \<and> length (concat (replicate 2 (for_of this s))) = 2)
   \<and> (isEmpty this s \<longrightarrow> length (concat (replicate n (for_of this s))) = 0)
   \<and> pc (Symbol_iterator this) = AtStart
   \<and> (isPresent this s \<longrightarrow>
        gen_next (Symbol_iterator this) s =
          (Some (value (objs s this)), \<lparr>receiver = this, pc = AtYield\<rparr>)
        \<and> gen_next \<lparr>receiver = this, pc = AtYield\<rparr> s =
            (None, \<lparr>receiver = this, pc = Completed\<rparr>))
   \<and> (isEmpty this s \<longrightarrow>
        gen_next (Symbol_iterator this) s = (None, \<lparr>receiver = this, pc = Completed\<rparr>))
   \<and> gen_next \<lparr>receiver = this, pc = Completed\<rparr> s =
        (None, \<lparr>receiver = this, pc = Completed\<rparr>)"
  by (simp add: for_of_present for_of_empty Symbol_iterator_def gen_next_def isPresent_def
      numeral_2_eq_2)

theorem for_of_correct_witness:
  "isPresent 0 hello
   \<and> for_of 0 hello = [Prim ''hello'']
   \<and> length (for_of 0 hello) + length (for_of 0 hello) = 2
   \<and> length (concat (replicate 2 (for_of 0 hello))) = 2
   \<and> isEmpty 0 nothing
   \<and> for_of 0 nothing = []
   \<and> length (concat (replicate 7 (for_of 0 nothing))) = 0"
  using for_of_correct [of 0 hello] for_of_correct [of 0 nothing 7]
  by (simp add: hello_simps nothing_simps)

section \<open>No operation writes an existing instance\<close>

lemma extends_refl: "extends s s"
  by (simp add: extends_def)

lemma extends_trans: "extends s s' \<Longrightarrow> extends s' s'' \<Longrightarrow> extends s s''"
  by (auto simp: extends_def)

lemma extends_new_Optional: "extends s (snd (new_Optional v s))"
  by (simp add: extends_def new_Optional_def)

lemma extends_new_Optional':
  "new_Optional v s1 = (r, s2) \<Longrightarrow> extends s s1 \<Longrightarrow> extends s s2"
  using extends_trans [OF _ extends_new_Optional [of s1 v]] by simp

lemma extends_call:
  "arg_keeps_readonly fn \<Longrightarrow> extends s (snd (call name fn args s))"
  by (cases fn) (auto simp: call_None call_Some extends_def arg_keeps_readonly_def keeps_readonly_def)

lemma extends_call':
  "arg_keeps_readonly fn \<Longrightarrow> call name fn args s = (r, s') \<Longrightarrow> extends s s'"
  using extends_call [of fn s name args] by simp

lemma extends_new_Optional'': "new_Optional v s = (r, s') \<Longrightarrow> extends s s'"
  using extends_new_Optional [of s v] by simp

lemmas extends_intros = extends_refl extends_new_Optional' extends_new_Optional''

lemma ifPresent_extends:
  assumes "arg_keeps_readonly fn"
  shows "extends s (snd (ifPresent fn this s))"
proof -
  obtain r s1 where c: "call ''fn'' fn [value (objs s this)] s = (r, s1)"
    by (cases "call ''fn'' fn [value (objs s this)] s")
  with assms have "extends s s1" by (rule extends_call')
  with c show ?thesis
    by (auto simp: ifPresent_def split: sum.splits intro: extends_intros)
qed

lemma ifPresentOrElse_extends:
  assumes "arg_keeps_readonly f" and "arg_keeps_readonly g"
  shows "extends s (snd (ifPresentOrElse f g this s))"
proof -
  obtain r s1 where c: "call ''nonEmptyFn'' f [value (objs s this)] s = (r, s1)"
    by (cases "call ''nonEmptyFn'' f [value (objs s this)] s")
  obtain r' s2 where d: "call ''emptyFn'' g [] s = (r', s2)"
    by (cases "call ''emptyFn'' g [] s")
  from assms c d have "extends s s1" "extends s s2" by (auto dest: extends_call')
  with c d show ?thesis
    by (auto simp: ifPresentOrElse_def split: sum.splits intro: extends_intros)
qed

lemma filter_Optional_extends:
  assumes "arg_keeps_readonly fn"
  shows "extends s (snd (filter_Optional fn this s))"
proof -
  obtain r s1 where c: "call ''fn'' fn [value (objs s this)] s = (r, s1)"
    by (cases "call ''fn'' fn [value (objs s this)] s")
  with assms have "extends s s1" by (rule extends_call')
  with c show ?thesis
    by (auto simp: filter_Optional_def split: sum.splits prod.splits if_splits
        intro: extends_intros)
qed

lemma map_Optional_extends:
  assumes "arg_keeps_readonly fn"
  shows "extends s (snd (map_Optional fn this s))"
proof -
  obtain r s1 where c: "call ''fn'' fn [value (objs s this)] s = (r, s1)"
    by (cases "call ''fn'' fn [value (objs s this)] s")
  with assms have "extends s s1" by (rule extends_call')
  with c show ?thesis
    by (auto simp: map_Optional_def split: sum.splits prod.splits intro: extends_intros)
qed

lemma flatMap_extends:
  assumes "arg_keeps_readonly fn"
  shows "extends s (snd (flatMap fn this s))"
proof -
  obtain r s1 where c: "call ''fn'' fn [value (objs s this)] s = (r, s1)"
    by (cases "call ''fn'' fn [value (objs s this)] s")
  with assms have "extends s s1" by (rule extends_call')
  with c show ?thesis
    by (auto simp: flatMap_def assertOn_def split: sum.splits prod.splits
        intro: extends_intros)
qed

lemma orElseGet_extends:
  assumes "arg_keeps_readonly fn"
  shows "extends s (snd (orElseGet fn this s))"
  using assms by (simp add: orElseGet_def extends_refl extends_call)

lemma or_Optional_extends:
  assumes "arg_keeps_readonly fn"
  shows "extends s (snd (or_Optional fn this s))"
proof -
  obtain r s1 where c: "call ''fn'' fn [] s = (r, s1)"
    by (cases "call ''fn'' fn [] s")
  with assms have "extends s s1" by (rule extends_call')
  with c show ?thesis
    by (auto simp: or_Optional_def assertOn_def split: sum.splits intro: extends_intros)
qed

lemma orElseThrow_extends:
  assumes "arg_keeps_readonly fn"
  shows "extends s (snd (orElseThrow fn this s))"
proof -
  obtain r s1 where c: "call ''fn'' fn [] s = (r, s1)"
    by (cases "call ''fn'' fn [] s")
  with assms have "extends s s1" by (rule extends_call')
  with c show ?thesis
    by (auto simp: orElseThrow_def split: sum.splits intro: extends_intros)
qed

lemma snd_returning: "snd (returning f p) = snd p"
  by (simp add: returning_def split: prod.splits sum.splits)

lemma get_state: "snd (get this s) = s"
  by (simp add: get_def assertOn_def)

lemma run_extends:
  assumes "args_keep_readonly op"
  shows "extends s (snd (run op this s))"
  using assms
  by (cases op)
     (simp_all add: snd_returning get_state extends_refl ifPresent_extends
        ifPresentOrElse_extends filter_Optional_extends map_Optional_extends flatMap_extends
        orElseGet_extends or_Optional_extends orElseThrow_extends)

lemma is_new_new_Optional:
  "extends s s1 \<Longrightarrow> new_Optional v s1 = (x, s') \<Longrightarrow> is_new s s' x"
  by (auto simp: is_new_def extends_def new_Optional_def)

lemma map_Optional_result:
  assumes "arg_keeps_readonly fn" and "map_Optional fn this s = (Inr x, s')"
  shows "is_new s s' x"
proof -
  obtain r s1 where c: "call ''fn'' fn [value (objs s this)] s = (r, s1)"
    by (cases "call ''fn'' fn [value (objs s this)] s")
  with assms have "extends s s1" by (auto dest: extends_call')
  with c assms(2) show ?thesis
    by (auto simp: map_Optional_def split: sum.splits prod.splits if_splits
        dest: is_new_new_Optional is_new_new_Optional [OF extends_refl])
qed

lemma call_result:
  "call name fn args s = (Inr x, s') \<Longrightarrow> \<exists>f. fn = Some f \<and> fst (f args s) = Inr x"
  by (cases fn) (auto simp: call_None call_Some split: sum.splits)

lemma returning_RValue:
  "returning RValue p = (Inr (RValue x), s') \<longleftrightarrow> p = (Inr x, s')"
  by (auto simp: returning_def split: prod.splits sum.splits)

lemma filter_Optional_empty:
  "isEmpty this s \<Longrightarrow> filter_Optional fn this s = (Inr (Ref this), s)"
  by (simp add: filter_Optional_def)

lemma filter_Optional_present_new:
  assumes "arg_keeps_readonly fn" and "isPresent this s"
    and "filter_Optional fn this s = (Inr x, s')"
  shows "is_new s s' x"
proof -
  obtain r s1 where c: "call ''fn'' fn [value (objs s this)] s = (r, s1)"
    by (cases "call ''fn'' fn [value (objs s this)] s")
  with assms(1) have "extends s s1" by (auto dest: extends_call')
  with c assms(2,3) show ?thesis
    by (auto simp: filter_Optional_def isPresent_def split: sum.splits prod.splits if_splits
        dest: is_new_new_Optional)
qed

lemma filter_Optional_present_exact:
  assumes "isPresent this s" and "fst (f [value (objs s this)] s) = Inr b"
  shows "fst (filter_Optional (Some f) this s) =
           Inr (Ref (next_ref (snd (f [value (objs s this)] s))))"
  using assms
  by (simp add: filter_Optional_def isPresent_def call_Some new_Optional_def)

lemma map_Optional_empty:
  "isEmpty this s \<Longrightarrow> fst (map_Optional fn this s) = Inr (Ref (next_ref s))"
  by (simp add: map_Optional_def new_Optional_def)

lemma map_Optional_present_exact:
  assumes "isPresent this s" and "fst (f [value (objs s this)] s) = Inr u"
  shows "fst (map_Optional (Some f) this s) =
           Inr (Ref (next_ref (snd (f [value (objs s this)] s))))"
  using assms
  by (simp add: map_Optional_def isPresent_def call_Some new_Optional_def)

lemma flatMap_empty:
  "isEmpty this s \<Longrightarrow>
     flatMap fn this s = (Inr (Ref (next_ref s)), snd (new_Optional Undefined s))"
  by (simp add: flatMap_def new_Optional_def)

lemma flatMap_present_result:
  assumes "isPresent this s" and "flatMap fn this s = (Inr x, s')"
  shows "\<exists>f. fn = Some f \<and> fst (f [value (objs s this)] s) = Inr x"
  using assms
  by (auto simp: flatMap_def assertOn_def isPresent_def split: sum.splits prod.splits if_splits
      dest: call_result)

lemma flatMap_present_exact:
  assumes "isPresent this s" and "fst (f [value (objs s this)] s) = Inr x"
    and "\<not> isNullOrUndefined x"
  shows "fst (flatMap (Some f) this s) = Inr x"
  using assms
  by (simp add: flatMap_def isPresent_def call_Some assertOn_def)

lemma or_Optional_present:
  "isPresent this s \<Longrightarrow> or_Optional fn this s = (Inr (Ref this), s)"
  by (simp add: or_Optional_def)

lemma or_Optional_empty_result:
  assumes "isEmpty this s" and "or_Optional fn this s = (Inr x, s')"
  shows "\<exists>f. fn = Some f \<and> fst (f [] s) = Inr x"
  using assms
  by (auto simp: or_Optional_def assertOn_def isPresent_def split: sum.splits prod.splits if_splits
      dest: call_result)

lemma or_Optional_empty_exact:
  assumes "isEmpty this s" and "fst (f [] s) = Inr x" and "\<not> isNullOrUndefined x"
  shows "fst (or_Optional (Some f) this s) = Inr x"
  using assms
  by (simp add: or_Optional_def isPresent_def call_Some assertOn_def)

lemma is_new_not_existing: "is_new s s' x \<Longrightarrow> a < next_ref s \<Longrightarrow> x \<noteq> Ref a"
  by (auto simp: is_new_def)

lemma fst_returning_RValue:
  "fst p = Inr x \<Longrightarrow> fst (returning RValue p) = Inr (RValue x)"
  by (cases p) (simp add: returning_def)

lemma hello_and_nothing_simps:
  "objs hello_and_nothing 0 = \<lparr>value = Prim ''hello''\<rparr>"
  "objs hello_and_nothing (Suc 0) = \<lparr>value = Undefined\<rparr>"
  "next_ref hello_and_nothing = 2" "world hello_and_nothing = 0"
  "calls hello_and_nothing = []"
  "isPresent 0 hello_and_nothing" "\<not> isEmpty 0 hello_and_nothing"
  "isEmpty (Suc 0) hello_and_nothing" "\<not> isPresent (Suc 0) hello_and_nothing"
  by (simp_all add: hello_and_nothing_def empty_Optional_def new_Optional_def hello_simps
      isPresent_def isEmpty_def)

lemma keeps_readonly_examples:
  "keeps_readonly (counting r)" "keeps_readonly (giving r)" "keeps_readonly (making v)"
  "keeps_readonly (throwing v)"
  by (simp_all add: keeps_readonly_def counting_def giving_def making_def throwing_def
      new_Optional_def)

text \<open>
  Claim C9, amended. Let the functions passed to an operation respect \<open>readonly\<close>. Then
  the operation leaves every existing instance as it was, the receiver included: the
  same slot value, and so the same answer to \<open>isPresent\<close> and \<open>isEmpty\<close>; no instance
  goes from present to empty or back, and the store only grows. What the transforming
  operations return, case by case:
  \<^item> \<open>filter\<close> on an empty receiver returns the receiver itself and leaves the state as it
    was; on a present receiver its result is a new instance (one that did not exist
    before the call, so not the receiver), the next one after the predicate has run;
  \<^item> \<open>map\<close> always returns a new instance: the next unused one on an empty receiver, the
    next one after the mapper has run on a present receiver;
  \<^item> \<open>flatMap\<close> on an empty receiver returns a new instance, the next unused one; on a
    present receiver its result is exactly what the mapper, called with the held value,
    returned, and every result of the mapper that is not absent is returned so;
  \<^item> \<open>or\<close> on a present receiver returns the receiver itself and leaves the state as it
    was; on an empty receiver its result is exactly what the supplier returned, and every
    result of the supplier that is not absent is returned so.

  What the supplied function returned may be a reference to an instance that existed
  before the call.
\<close>

theorem operations_frame:
  "args_keep_readonly op \<longrightarrow> run op this s = (r, s') \<longrightarrow>
     next_ref s \<le> next_ref s'
     \<and> (\<forall>a. a < next_ref s \<longrightarrow>
           value (objs s' a) = value (objs s a)
           \<and> isPresent a s' = isPresent a s \<and> isEmpty a s' = isEmpty a s)
     \<and> (\<forall>fn. op = Filter fn \<longrightarrow> isEmpty this s \<longrightarrow>
           r = Inr (RValue (Ref this)) \<and> s' = s)
     \<and> (\<forall>fn x. op = Filter fn \<longrightarrow> isPresent this s \<longrightarrow> r = Inr (RValue x) \<longrightarrow>
           is_new s s' x \<and> (this < next_ref s \<longrightarrow> x \<noteq> Ref this))
     \<and> (\<forall>f b. op = Filter (Some f) \<longrightarrow> isPresent this s \<longrightarrow>
           fst (f [value (objs s this)] s) = Inr b \<longrightarrow>
           r = Inr (RValue (Ref (next_ref (snd (f [value (objs s this)] s))))))
     \<and> (\<forall>fn x. op = Map fn \<longrightarrow> r = Inr (RValue x) \<longrightarrow>
           is_new s s' x \<and> (this < next_ref s \<longrightarrow> x \<noteq> Ref this))
     \<and> (\<forall>fn. op = Map fn \<longrightarrow> isEmpty this s \<longrightarrow> r = Inr (RValue (Ref (next_ref s))))
     \<and> (\<forall>f u. op = Map (Some f) \<longrightarrow> isPresent this s \<longrightarrow>
           fst (f [value (objs s this)] s) = Inr u \<longrightarrow>
           r = Inr (RValue (Ref (next_ref (snd (f [value (objs s this)] s))))))
     \<and> (\<forall>fn. op = FlatMap fn \<longrightarrow> isEmpty this s \<longrightarrow>
           r = Inr (RValue (Ref (next_ref s))) \<and> is_new s s' (Ref (next_ref s)))
     \<and> (\<forall>fn x. op = FlatMap fn \<longrightarrow> isPresent this s \<longrightarrow> r = Inr (RValue x) \<longrightarrow>
           (\<exists>f. fn = Some f \<and> fst (f [value (objs s this)] s) = Inr x))
     \<and> (\<forall>f x. op = FlatMap (Some f) \<longrightarrow> isPresent this s \<longrightarrow>
           fst (f [value (objs s this)] s) = Inr x \<longrightarrow> \<not> isNullOrUndefined x \<longrightarrow>
           r = Inr (RValue x))
     \<and> (\<forall>fn. op = Or fn \<longrightarrow> isPresent this s \<longrightarrow>
           r = Inr (RValue (Ref this)) \<and> s' = s)
     \<and> (\<forall>fn x. op = Or fn \<longrightarrow> isEmpty this s \<longrightarrow> r = Inr (RValue x) \<longrightarrow>
           (\<exists>f. fn = Some f \<and> fst (f [] s) = Inr x))
     \<and> (\<forall>f x. op = Or (Some f) \<longrightarrow> isEmpty this s \<longrightarrow>
           fst (f [] s) = Inr x \<longrightarrow> \<not> isNullOrUndefined x \<longrightarrow> r = Inr (RValue x))"
proof (intro impI)
  assume ok: "args_keep_readonly op" and run: "run op this s = (r, s')"
  from run have r: "r = fst (run op this s)" and s': "s' = snd (run op this s)"
    by simp_all
  from run_extends [OF ok, of s this] run have ext: "extends s s'"
    by simp
  then have frame: "next_ref s \<le> next_ref s'"
    "\<forall>a. a < next_ref s \<longrightarrow>
           value (objs s' a) = value (objs s a)
           \<and> isPresent a s' = isPresent a s \<and> isEmpty a s' = isEmpty a s"
    by (simp_all add: extends_def isPresent_def isEmpty_def)
  have fe: "\<forall>fn. op = Filter fn \<longrightarrow> isEmpty this s \<longrightarrow>
           r = Inr (RValue (Ref this)) \<and> s' = s"
    using run by (auto simp: filter_Optional_empty returning_def)
  have fp: "\<forall>fn x. op = Filter fn \<longrightarrow> isPresent this s \<longrightarrow> r = Inr (RValue x) \<longrightarrow>
           is_new s s' x \<and> (this < next_ref s \<longrightarrow> x \<noteq> Ref this)"
  proof (intro allI impI)
    fix fn x
    assume "op = Filter fn" and p: "isPresent this s" and "r = Inr (RValue x)"
    with ok run have "arg_keeps_readonly fn" and "filter_Optional fn this s = (Inr x, s')"
      by (simp_all add: returning_RValue)
    with p have n: "is_new s s' x"
      by (simp add: filter_Optional_present_new)
    with is_new_not_existing [OF n, of this]
    show "is_new s s' x \<and> (this < next_ref s \<longrightarrow> x \<noteq> Ref this)"
      by simp
  qed
  have fx: "\<forall>f b. op = Filter (Some f) \<longrightarrow> isPresent this s \<longrightarrow>
           fst (f [value (objs s this)] s) = Inr b \<longrightarrow>
           r = Inr (RValue (Ref (next_ref (snd (f [value (objs s this)] s)))))"
    unfolding r by (auto dest: filter_Optional_present_exact intro: fst_returning_RValue)
  have mn: "\<forall>fn x. op = Map fn \<longrightarrow> r = Inr (RValue x) \<longrightarrow>
           is_new s s' x \<and> (this < next_ref s \<longrightarrow> x \<noteq> Ref this)"
  proof (intro allI impI)
    fix fn x
    assume "op = Map fn" and "r = Inr (RValue x)"
    with ok run have "arg_keeps_readonly fn" and "map_Optional fn this s = (Inr x, s')"
      by (simp_all add: returning_RValue)
    then have n: "is_new s s' x"
      by (rule map_Optional_result)
    with is_new_not_existing [OF n, of this]
    show "is_new s s' x \<and> (this < next_ref s \<longrightarrow> x \<noteq> Ref this)"
      by simp
  qed
  have me: "\<forall>fn. op = Map fn \<longrightarrow> isEmpty this s \<longrightarrow> r = Inr (RValue (Ref (next_ref s)))"
    unfolding r by (auto intro: fst_returning_RValue map_Optional_empty)
  have mx: "\<forall>f u. op = Map (Some f) \<longrightarrow> isPresent this s \<longrightarrow>
           fst (f [value (objs s this)] s) = Inr u \<longrightarrow>
           r = Inr (RValue (Ref (next_ref (snd (f [value (objs s this)] s)))))"
    unfolding r by (auto dest: map_Optional_present_exact intro: fst_returning_RValue)
  have de: "\<forall>fn. op = FlatMap fn \<longrightarrow> isEmpty this s \<longrightarrow>
           r = Inr (RValue (Ref (next_ref s))) \<and> is_new s s' (Ref (next_ref s))"
    using run
    by (auto simp: flatMap_empty returning_def is_new_def new_Optional_def)
  have dp: "\<forall>fn x. op = FlatMap fn \<longrightarrow> isPresent this s \<longrightarrow> r = Inr (RValue x) \<longrightarrow>
           (\<exists>f. fn = Some f \<and> fst (f [value (objs s this)] s) = Inr x)"
    using run by (auto simp: returning_RValue dest: flatMap_present_result)
  have dx: "\<forall>f x. op = FlatMap (Some f) \<longrightarrow> isPresent this s \<longrightarrow>
           fst (f [value (objs s this)] s) = Inr x \<longrightarrow> \<not> isNullOrUndefined x \<longrightarrow>
           r = Inr (RValue x)"
    unfolding r by (auto dest: flatMap_present_exact intro: fst_returning_RValue)
  have op': "\<forall>fn. op = Or fn \<longrightarrow> isPresent this s \<longrightarrow>
           r = Inr (RValue (Ref this)) \<and> s' = s"
    using run by (auto simp: or_Optional_present returning_def)
  have oe: "\<forall>fn x. op = Or fn \<longrightarrow> isEmpty this s \<longrightarrow> r = Inr (RValue x) \<longrightarrow>
           (\<exists>f. fn = Some f \<and> fst (f [] s) = Inr x)"
    using run by (auto simp: returning_RValue dest: or_Optional_empty_result)
  have ox: "\<forall>f x. op = Or (Some f) \<longrightarrow> isEmpty this s \<longrightarrow>
           fst (f [] s) = Inr x \<longrightarrow> \<not> isNullOrUndefined x \<longrightarrow> r = Inr (RValue x)"
    unfolding r by (auto dest: or_Optional_empty_exact intro: fst_returning_RValue)
  show "next_ref s \<le> next_ref s'
     \<and> (\<forall>a. a < next_ref s \<longrightarrow>
           value (objs s' a) = value (objs s a)
           \<and> isPresent a s' = isPresent a s \<and> isEmpty a s' = isEmpty a s)
     \<and> (\<forall>fn. op = Filter fn \<longrightarrow> isEmpty this s \<longrightarrow>
           r = Inr (RValue (Ref this)) \<and> s' = s)
     \<and> (\<forall>fn x. op = Filter fn \<longrightarrow> isPresent this s \<longrightarrow> r = Inr (RValue x) \<longrightarrow>
           is_new s s' x \<and> (this < next_ref s \<longrightarrow> x \<noteq> Ref this))
     \<and> (\<forall>f b. op = Filter (Some f) \<longrightarrow> isPresent this s \<longrightarrow>
           fst (f [value (objs s this)] s) = Inr b \<longrightarrow>
           r = Inr (RValue (Ref (next_ref (snd (f [value (objs s this)] s))))))
     \<and> (\<forall>fn x. op = Map fn \<longrightarrow> r = Inr (RValue x) \<longrightarrow>
           is_new s s' x \<and> (this < next_ref s \<longrightarrow> x \<noteq> Ref this))
     \<and> (\<forall>fn. op = Map fn \<longrightarrow> isEmpty this s \<longrightarrow> r = Inr (RValue (Ref (next_ref s))))
     \<and> (\<forall>f u. op = Map (Some f) \<longrightarrow> isPresent this s \<longrightarrow>
           fst (f [value (objs s this)] s) = Inr u \<longrightarrow>
           r = Inr (RValue (Ref (next_ref (snd (f [value (objs s this)] s))))))
     \<and> (\<forall>fn. op = FlatMap fn \<longrightarrow> isEmpty this s \<longrightarrow>
           r = Inr (RValue (Ref (next_ref s))) \<and> is_new s s' (Ref (next_ref s)))
     \<and> (\<forall>fn x. op = FlatMap fn \<longrightarrow> isPresent this s \<longrightarrow> r = Inr (RValue x) \<longrightarrow>
           (\<exists>f. fn = Some f \<and> fst (f [value (objs s this)] s) = Inr x))
     \<and> (\<forall>f x. op = FlatMap (Some f) \<longrightarrow> isPresent this s \<longrightarrow>
           fst (f [value (objs s this)] s) = Inr x \<longrightarrow> \<not> isNullOrUndefined x \<longrightarrow>
           r = Inr (RValue x))
     \<and> (\<forall>fn. op = Or fn \<longrightarrow> isPresent this s \<longrightarrow>
           r = Inr (RValue (Ref this)) \<and> s' = s)
     \<and> (\<forall>fn x. op = Or fn \<longrightarrow> isEmpty this s \<longrightarrow> r = Inr (RValue x) \<longrightarrow>
           (\<exists>f. fn = Some f \<and> fst (f [] s) = Inr x))
     \<and> (\<forall>f x. op = Or (Some f) \<longrightarrow> isEmpty this s \<longrightarrow>
           fst (f [] s) = Inr x \<longrightarrow> \<not> isNullOrUndefined x \<longrightarrow> r = Inr (RValue x))"
    by (intro conjI frame fe fp fx mn me mx de dp dx op' oe ox)
qed

theorem operations_frame_witness:
  "args_keep_readonly (Map (Some (counting (Prim ''goodbye''))))
   \<and> isPresent 0 hello
   \<and> fst (run (Map (Some (counting (Prim ''goodbye'')))) 0 hello) = Inr (RValue (Ref 1))
   \<and> is_new hello (snd (run (Map (Some (counting (Prim ''goodbye'')))) 0 hello)) (Ref 1)
   \<and> value (objs (snd (run (Map (Some (counting (Prim ''goodbye'')))) 0 hello)) 0)
       = Prim ''hello''
   \<and> isPresent 0 (snd (run (Map (Some (counting (Prim ''goodbye'')))) 0 hello))
   \<and> isEmpty 0 nothing
   \<and> run (Filter (Some (counting True))) 0 nothing = (Inr (RValue (Ref 0)), nothing)
   \<and> fst (run (Filter (Some (counting True))) 0 hello) = Inr (RValue (Ref 1))
   \<and> isEmpty 1 hello_and_nothing
   \<and> fst (run (FlatMap (Some (giving (Ref 1)))) 0 hello_and_nothing) = Inr (RValue (Ref 1))
   \<and> fst (run (FlatMap (Some (giving (Ref 1)))) 1 hello_and_nothing) = Inr (RValue (Ref 2))
   \<and> run (Or (Some (giving (Ref 1)))) 0 hello_and_nothing
       = (Inr (RValue (Ref 0)), hello_and_nothing)
   \<and> fst (run (Or (Some (giving (Ref 0)))) 1 hello_and_nothing) = Inr (RValue (Ref 0))"
proof -
  let ?m = "Map (Some (counting (Prim ''goodbye'')))"
  let ?f = "Filter (Some (counting True))"
  let ?d = "FlatMap (Some (giving (Ref 1)))"
  let ?o1 = "Or (Some (giving (Ref 1)))"
  let ?o0 = "Or (Some (giving (Ref 0)))"
  have ok: "args_keep_readonly ?m" "args_keep_readonly ?f" "args_keep_readonly ?d"
    "args_keep_readonly ?o1" "args_keep_readonly ?o0"
    by (simp_all add: arg_keeps_readonly_def keeps_readonly_examples)
  have cm: "fst (counting (Prim ''goodbye'') [value (objs hello 0)] hello) = Inr (Prim ''goodbye'')"
    "next_ref (snd (counting (Prim ''goodbye'') [value (objs hello 0)] hello)) = 1"
    and cf: "fst (counting True [value (objs hello 0)] hello) = Inr True"
    "next_ref (snd (counting True [value (objs hello 0)] hello)) = 1"
    by (simp_all add: counting_def hello_simps)
  have g: "fst (giving (Ref 1) [value (objs hello_and_nothing 0)] hello_and_nothing)
             = Inr (Ref 1 :: string jsval)"
    "fst (giving (Ref 0) [] hello_and_nothing) = Inr (Ref 0 :: string jsval)"
    by (simp_all add: giving_def)
  note m = operations_frame [of ?m 0 hello "fst (run ?m 0 hello)" "snd (run ?m 0 hello)"]
  note fn = operations_frame [of ?f 0 nothing "fst (run ?f 0 nothing)" "snd (run ?f 0 nothing)"]
  note fh = operations_frame [of ?f 0 hello "fst (run ?f 0 hello)" "snd (run ?f 0 hello)"]
  note d0 = operations_frame [of ?d 0 hello_and_nothing
      "fst (run ?d 0 hello_and_nothing)" "snd (run ?d 0 hello_and_nothing)"]
  note d1 = operations_frame [of ?d 1 hello_and_nothing
      "fst (run ?d 1 hello_and_nothing)" "snd (run ?d 1 hello_and_nothing)"]
  note o1 = operations_frame [of ?o1 0 hello_and_nothing
      "fst (run ?o1 0 hello_and_nothing)" "snd (run ?o1 0 hello_and_nothing)"]
  note o0 = operations_frame [of ?o0 1 hello_and_nothing
      "fst (run ?o0 1 hello_and_nothing)" "snd (run ?o0 1 hello_and_nothing)"]
  have m1: "fst (run ?m 0 hello) = Inr (RValue (Ref 1))"
    using m ok(1) cm hello_simps(5) by (metis prod.collapse One_nat_def)
  have m2: "is_new hello (snd (run ?m 0 hello)) (Ref 1)"
    using m ok(1) m1 by (metis prod.collapse)
  have m3: "value (objs (snd (run ?m 0 hello)) 0) = Prim ''hello''"
    using m ok(1) hello_simps
    by (metis prod.collapse zero_less_one Optional.select_convs(1))
  have m4: "isPresent 0 (snd (run ?m 0 hello))"
    using m ok(1) hello_simps by (metis prod.collapse zero_less_one)
  have f1: "run ?f 0 nothing = (Inr (RValue (Ref 0)), nothing)"
    using fn ok(2) nothing_simps(5) by (metis prod.collapse)
  have f2: "fst (run ?f 0 hello) = Inr (RValue (Ref 1))"
    using fh ok(2) cf hello_simps(5) by (metis prod.collapse One_nat_def)
  have d0': "fst (run ?d 0 hello_and_nothing) = Inr (RValue (Ref 1))"
    using d0 ok(3) g(1) hello_and_nothing_simps(6) isNullOrUndefined_simps(4)
    by (metis prod.collapse)
  have d1': "fst (run ?d 1 hello_and_nothing) = Inr (RValue (Ref 2))"
    using d1 ok(3) hello_and_nothing_simps(3,8) by (metis prod.collapse One_nat_def)
  have o1': "run ?o1 0 hello_and_nothing = (Inr (RValue (Ref 0)), hello_and_nothing)"
    using o1 ok(4) hello_and_nothing_simps(6) by (metis prod.collapse)
  have o0': "fst (run ?o0 1 hello_and_nothing) = Inr (RValue (Ref 0))"
    using o0 ok(5) g(2) hello_and_nothing_simps(8) isNullOrUndefined_simps(4)
    by (metis prod.collapse One_nat_def)
  from ok(1) m1 m2 m3 m4 f1 f2 d0' d1' o1' o0' show ?thesis
    by (simp add: hello_simps nothing_simps hello_and_nothing_simps)
qed

text \<open>
  Claim C9 as it is written fails where it says that every transforming operation gives
  a new container or the receiver: with \<open>a\<close> present and \<open>b\<close> empty,
  \<open>a.flatMap(_ => b)\<close> returns \<open>b\<close> and \<open>b.or(() => a)\<close> returns \<open>a\<close>, an instance that
  existed before the call and is not the receiver.
\<close>

theorem transforming_result_counterexample:
  "isPresent 0 hello_and_nothing
   \<and> flatMap (Some (giving (Ref 1))) 0 hello_and_nothing =
       (Inr (Ref 1), hello_and_nothing\<lparr>calls := [(''fn'', [Prim ''hello''])]\<rparr>)
   \<and> Ref 1 \<noteq> (Ref 0 :: string jsval)
   \<and> \<not> is_new hello_and_nothing (hello_and_nothing\<lparr>calls := [(''fn'', [Prim ''hello''])]\<rparr>)
         (Ref 1)
   \<and> isEmpty 1 hello_and_nothing
   \<and> or_Optional (Some (giving (Ref 0))) 1 hello_and_nothing =
       (Inr (Ref 0), hello_and_nothing\<lparr>calls := [(''fn'', [])]\<rparr>)
   \<and> Ref 0 \<noteq> (Ref 1 :: string jsval)
   \<and> \<not> is_new hello_and_nothing (hello_and_nothing\<lparr>calls := [(''fn'', [])]\<rparr>) (Ref 0)"
  by (simp add: flatMap_def or_Optional_def hello_and_nothing_simps call_Some giving_def
      assertOn_def is_new_def)

section \<open>\<open>ofNullable\<close>, \<open>of\<close> and \<open>empty\<close>\<close>

lemma absent_alike_refl [simp]: "absent_alike x x"
  by (simp add: absent_alike_def)

lemma same_view_refl [simp]: "same_view s s"
  by (simp add: same_view_def)

lemma same_view_slot:
  "same_view s t \<Longrightarrow> absent_alike (value (objs s a)) (value (objs t a))"
  by (simp add: same_view_def)

lemma same_view_isEmpty: "same_view s t \<Longrightarrow> isEmpty a s = isEmpty a t"
  using same_view_slot [of s t a] by (auto simp: isEmpty_def absent_alike_def)

lemma same_view_isPresent: "same_view s t \<Longrightarrow> isPresent a s = isPresent a t"
  by (simp add: isPresent_def same_view_isEmpty)

lemma same_view_value:
  "same_view s t \<Longrightarrow> \<not> isEmpty a s \<Longrightarrow> value (objs s a) = value (objs t a)"
  using same_view_slot [of s t a] by (auto simp: isEmpty_def absent_alike_def)

lemma alike_new_Optional:
  "same_view s t \<Longrightarrow> absent_alike x y \<Longrightarrow> alike (new_Optional x s) (new_Optional y t)"
  by (auto simp: alike_def same_view_def new_Optional_def)

lemma alike_call:
  "arg_blind fn \<Longrightarrow> same_view s t \<Longrightarrow> alike (call name fn args s) (call name fn args t)"
  by (cases fn)
     (auto simp: call_None call_Some alike_def arg_blind_def blind_def same_view_def)

lemma alikeI: "fst p = fst q \<Longrightarrow> same_view (snd p) (snd q) \<Longrightarrow> alike p q"
  by (simp add: alike_def)

lemma get_alike: "same_view s t \<Longrightarrow> alike (get this s) (get this t)"
  using same_view_value [of s t this]
  by (auto simp: get_def assertOn_def alike_def same_view_isEmpty [of s t])

lemma ifPresent_alike:
  assumes "arg_blind fn" and "same_view s t"
  shows "alike (ifPresent fn this s) (ifPresent fn this t)"
proof (cases "isPresent this s")
  case False
  with assms show ?thesis
    by (simp add: ifPresent_def same_view_isPresent [of s t] alike_def)
next
  case True
  then have v: "value (objs s this) = value (objs t this)"
    using assms(2) by (simp add: same_view_value isPresent_def)
  from alike_call [OF assms, of "''fn''" "[value (objs s this)]"] True v assms(2)
  show ?thesis
    by (auto simp: ifPresent_def same_view_isPresent [of s t] alike_def
        split: prod.splits sum.splits)
qed

lemma alike_callE:
  assumes "arg_blind fn" and "same_view s t"
  obtains r s1 t1 where "call name fn args s = (r, s1)" and "call name fn args t = (r, t1)"
    and "same_view s1 t1"
proof -
  from alike_call [OF assms, of name args]
  have "fst (call name fn args s) = fst (call name fn args t)"
    and "same_view (snd (call name fn args s)) (snd (call name fn args t))"
    by (simp_all add: alike_def)
  then show thesis
    using that [of "fst (call name fn args s)" "snd (call name fn args s)"
        "snd (call name fn args t)"]
    by (metis prod.collapse)
qed

lemma same_view_sym_facts:
  assumes "same_view s t"
  shows "isEmpty this t = isEmpty this s" and "isPresent this t = isPresent this s"
    and "\<not> isEmpty this s \<Longrightarrow> value (objs t this) = value (objs s this)"
  using assms same_view_value [of s t this]
  by (simp_all add: same_view_isEmpty [of s t] same_view_isPresent [of s t])

lemma new_Optional_alike:
  assumes "same_view s t" and "absent_alike x y"
  shows "fst (new_Optional y t) = fst (new_Optional x s)"
    and "same_view (snd (new_Optional x s)) (snd (new_Optional y t))"
  using alike_new_Optional [OF assms] by (simp_all add: alike_def)

lemma ifPresentOrElse_alike:
  assumes "arg_blind f" and "arg_blind g" and "same_view s t"
  shows "alike (ifPresentOrElse f g this s) (ifPresentOrElse f g this t)"
proof -
  note e = same_view_sym_facts [OF assms(3), of this]
  obtain r s1 t1 where c: "call ''emptyFn'' g [] s = (r, s1)"
    "call ''emptyFn'' g [] t = (r, t1)" and sv: "same_view s1 t1"
    using assms(2,3) by (rule alike_callE)
  obtain r' s2 t2 where c': "call ''nonEmptyFn'' f [value (objs s this)] s = (r', s2)"
    "call ''nonEmptyFn'' f [value (objs s this)] t = (r', t2)" and sv': "same_view s2 t2"
    using assms(1,3) by (rule alike_callE)
  show ?thesis
    by (cases r; cases r')
       (simp_all add: ifPresentOrElse_def alike_def e c c' sv sv' isPresent_def)
qed

lemma filter_Optional_alike:
  assumes "arg_blind fn" and "same_view s t"
  shows "alike (filter_Optional fn this s) (filter_Optional fn this t)"
proof -
  note e = same_view_sym_facts [OF assms(2), of this]
  obtain r s1 t1 where c: "call ''fn'' fn [value (objs s this)] s = (r, s1)"
    "call ''fn'' fn [value (objs s this)] t = (r, t1)" and sv: "same_view s1 t1"
    using assms by (rule alike_callE)
  note n1 = new_Optional_alike [OF sv same_view_slot [OF sv, of this]]
  note n2 = new_Optional_alike [OF sv absent_alike_refl [of Undefined]]
  show ?thesis
    by (cases r)
       (simp_all add: filter_Optional_def alike_def e c sv n1 n2 assms(2) split_beta)
qed

lemma map_Optional_alike:
  assumes "arg_blind fn" and "same_view s t"
  shows "alike (map_Optional fn this s) (map_Optional fn this t)"
proof -
  note e = same_view_sym_facts [OF assms(2), of this]
  obtain r s1 t1 where c: "call ''fn'' fn [value (objs s this)] s = (r, s1)"
    "call ''fn'' fn [value (objs s this)] t = (r, t1)" and sv: "same_view s1 t1"
    using assms by (rule alike_callE)
  note n1 = new_Optional_alike [OF sv absent_alike_refl]
  note n2 = new_Optional_alike [OF assms(2) absent_alike_refl [of Undefined]]
  show ?thesis
    by (cases r)
       (simp_all add: map_Optional_def alike_def e c sv n1 n2 assms(2) split_beta)
qed

lemma flatMap_alike:
  assumes "arg_blind fn" and "same_view s t"
  shows "alike (flatMap fn this s) (flatMap fn this t)"
proof -
  note e = same_view_sym_facts [OF assms(2), of this]
  obtain r s1 t1 where c: "call ''fn'' fn [value (objs s this)] s = (r, s1)"
    "call ''fn'' fn [value (objs s this)] t = (r, t1)" and sv: "same_view s1 t1"
    using assms by (rule alike_callE)
  note n2 = new_Optional_alike [OF assms(2) absent_alike_refl [of Undefined]]
  show ?thesis
    by (cases r)
       (simp_all add: flatMap_def alike_def e c sv n2 assms(2) split_beta assertOn_def)
qed

lemma orElse_alike: "same_view s t \<Longrightarrow> orElse other this t = orElse other this s"
  by (simp add: orElse_def same_view_sym_facts [of s t this] isPresent_def)

lemma orElseGet_alike:
  assumes "arg_blind fn" and "same_view s t"
  shows "alike (orElseGet fn this s) (orElseGet fn this t)"
proof -
  note e = same_view_sym_facts [OF assms(2), of this]
  obtain r s1 t1 where c: "call ''fn'' fn [] s = (r, s1)" "call ''fn'' fn [] t = (r, t1)"
    and sv: "same_view s1 t1"
    using assms by (rule alike_callE)
  show ?thesis
    by (simp add: orElseGet_def alike_def e c sv assms(2) isPresent_def)
qed

lemma or_Optional_alike:
  assumes "arg_blind fn" and "same_view s t"
  shows "alike (or_Optional fn this s) (or_Optional fn this t)"
proof -
  note e = same_view_sym_facts [OF assms(2), of this]
  obtain r s1 t1 where c: "call ''fn'' fn [] s = (r, s1)" "call ''fn'' fn [] t = (r, t1)"
    and sv: "same_view s1 t1"
    using assms by (rule alike_callE)
  show ?thesis
    by (cases r)
       (simp_all add: or_Optional_def alike_def e c sv assms(2) assertOn_def)
qed

lemma orElseThrow_alike:
  assumes "arg_blind fn" and "same_view s t"
  shows "alike (orElseThrow fn this s) (orElseThrow fn this t)"
proof -
  note e = same_view_sym_facts [OF assms(2), of this]
  obtain r s1 t1 where c: "call ''fn'' fn [] s = (r, s1)" "call ''fn'' fn [] t = (r, t1)"
    and sv: "same_view s1 t1"
    using assms by (rule alike_callE)
  show ?thesis
    by (cases r)
       (simp_all add: orElseThrow_def alike_def e c sv assms(2) isPresent_def)
qed

lemma for_of_alike: "same_view s t \<Longrightarrow> for_of this t = for_of this s"
  by (cases "isPresent this s")
     (simp_all add: for_of_present for_of_empty same_view_sym_facts [of s t this]
        isPresent_def)

lemma returning_alike: "alike p q \<Longrightarrow> alike (returning f p) (returning f q)"
  by (auto simp: alike_def returning_def split: prod.splits sum.splits)

lemma run_alike:
  assumes "args_blind op" and "same_view s t"
  shows "alike (run op this s) (run op this t)"
proof (cases op)
  case IsEmpty
  with assms show ?thesis
    by (simp add: alike_def same_view_sym_facts [of s t this])
next
  case IsPresent
  with assms show ?thesis
    by (simp add: alike_def same_view_sym_facts [of s t this])
next
  case (OrElse other)
  with assms show ?thesis
    by (simp add: alike_def orElse_alike [of s t])
next
  case Iterate
  with assms show ?thesis
    by (simp add: alike_def for_of_alike [of s t])
qed (use assms in \<open>simp_all add: returning_alike get_alike ifPresent_alike
      ifPresentOrElse_alike filter_Optional_alike map_Optional_alike flatMap_alike
      orElseGet_alike or_Optional_alike orElseThrow_alike\<close>)

lemma blind_examples:
  "blind (counting r)" "blind (giving r)" "blind (making v)" "blind (throwing v)"
  by (simp_all add: blind_def counting_def giving_def making_def throwing_def
      new_Optional_def same_view_def)

text \<open>
  Claim C10. For a value \<open>v\<close> that is not absent, \<open>of(v)\<close> and \<open>ofNullable(v)\<close> return the
  same reference and leave the same state, so whatever is done next gives the same; the
  container is present and \<open>get()\<close> returns \<open>v\<close>. \<open>ofNullable(undefined)\<close> and \<open>empty()\<close>
  also return the same reference and leave the same state. \<open>ofNullable(null)\<close> returns
  the same reference as \<open>empty()\<close>, to an empty container, and leaves a state with the
  same view: the slot holds \<open>null\<close> where that of \<open>empty()\<close> holds \<open>undefined\<close>. No
  operation tells states with the same view apart: run from two such states, with
  functions that are blind to the difference, every operation gives the same result and
  leaves states with the same view again, so this holds for every sequence of
  operations. (The field \<open>value\<close> itself, read from outside, is \<open>null\<close> in one and
  \<open>undefined\<close> in the other; no method lets that through.)
\<close>

theorem ofNullable_equivalent:
  "(\<not> isNullOrUndefined v \<longrightarrow>
      of_Optional v s = (Inr (fst (ofNullable v s)), snd (ofNullable v s))
      \<and> fst (ofNullable v s) = Ref (next_ref s)
      \<and> isPresent (next_ref s) (snd (ofNullable v s))
      \<and> get (next_ref s) (snd (ofNullable v s)) = (Inr v, snd (ofNullable v s)))
   \<and> ofNullable Undefined s = empty_Optional s
   \<and> (isNullOrUndefined v \<longrightarrow>
        fst (ofNullable v s) = fst (empty_Optional s)
        \<and> fst (empty_Optional s) = Ref (next_ref s)
        \<and> same_view (snd (ofNullable v s)) (snd (empty_Optional s))
        \<and> isEmpty (next_ref s) (snd (ofNullable v s))
        \<and> isEmpty (next_ref s) (snd (empty_Optional s)))
   \<and> (\<forall>op this t u. args_blind op \<longrightarrow> same_view t u \<longrightarrow>
          fst (run op this t) = fst (run op this (u :: ('a, 'w) state))
          \<and> same_view (snd (run op this t)) (snd (run op this u)))"
  for s :: "('a, 'w) state"
proof -
  have a: "\<not> isNullOrUndefined v \<longrightarrow>
      of_Optional v s = (Inr (fst (ofNullable v s)), snd (ofNullable v s))
      \<and> fst (ofNullable v s) = Ref (next_ref s)
      \<and> isPresent (next_ref s) (snd (ofNullable v s))
      \<and> get (next_ref s) (snd (ofNullable v s)) = (Inr v, snd (ofNullable v s))"
    by (simp add: of_Optional_def ofNullable_def assertOn_def new_Optional_def isPresent_def
        isEmpty_def get_def)
  have b: "ofNullable Undefined s = empty_Optional s"
    by (simp add: ofNullable_def empty_Optional_def)
  have c: "isNullOrUndefined v \<longrightarrow>
        fst (ofNullable v s) = fst (empty_Optional s)
        \<and> fst (empty_Optional s) = Ref (next_ref s)
        \<and> same_view (snd (ofNullable v s)) (snd (empty_Optional s))
        \<and> isEmpty (next_ref s) (snd (ofNullable v s))
        \<and> isEmpty (next_ref s) (snd (empty_Optional s))"
    by (simp add: ofNullable_def empty_Optional_def new_Optional_def same_view_def
        absent_alike_def isEmpty_def)
  have d: "\<forall>op this t u. args_blind op \<longrightarrow> same_view t u \<longrightarrow>
          fst (run op this t) = fst (run op this (u :: ('a, 'w) state))
          \<and> same_view (snd (run op this t)) (snd (run op this u))"
  proof (intro allI impI)
    fix op :: "('a, 'w) operation" and this and t u :: "('a, 'w) state"
    assume "args_blind op" and "same_view t u"
    then have "alike (run op this t) (run op this u)"
      by (rule run_alike)
    then show "fst (run op this t) = fst (run op this u)
          \<and> same_view (snd (run op this t)) (snd (run op this u))"
      by (simp add: alike_def)
  qed
  from a b c d show ?thesis by blast
qed

theorem ofNullable_equivalent_witness:
  "of_Optional (Prim ''hello'') (init (0::nat)) = (Inr (Ref 0), hello)
   \<and> ofNullable (Prim ''hello'') (init (0::nat)) = (Ref 0, hello)
   \<and> ofNullable Undefined (init (0::nat)) = (Ref 0, nothing)
   \<and> fst (ofNullable Null (init (0::nat))) = (Ref 0 :: string jsval)
   \<and> same_view (snd (ofNullable Null (init (0::nat)))) nothing
   \<and> args_blind (OrElseGet (Some (giving (Prim ''hello''))))
   \<and> fst (run (OrElseGet (Some (giving (Prim ''hello'')))) 0 (snd (ofNullable Null (init 0))))
       = Inr (RValue (Prim ''hello''))
   \<and> fst (run (OrElseGet (Some (giving (Prim ''hello'')))) 0 nothing)
       = Inr (RValue (Prim ''hello''))"
proof -
  let ?op = "OrElseGet (Some (giving (Prim ''hello'')))"
  let ?n = "snd (ofNullable Null (init (0::nat))) :: (string, nat) state"
  note p = ofNullable_equivalent [of "Prim ''hello''" "init (0::nat)"]
  note u = ofNullable_equivalent [of "Undefined :: string jsval" "init (0::nat)"]
  note n = ofNullable_equivalent [of "Null :: string jsval" "init (0::nat)"]
  have e: "empty_Optional (init (0::nat)) = (Ref 0 :: string jsval, nothing)"
    by (simp add: nothing_def empty_Optional_def new_Optional_def init_def)
  have h: "ofNullable (Prim ''hello'') (init (0::nat)) = (Ref 0, hello)"
    by (simp add: hello_def ofNullable_def new_Optional_def init_def)
  have bl: "args_blind ?op"
    by (simp add: arg_blind_def blind_examples)
  from n e have sv: "same_view ?n nothing" and r: "fst (ofNullable Null (init (0::nat))) = (Ref 0 :: string jsval)"
    by simp_all
  have on: "fst (run ?op 0 nothing) = Inr (RValue (Prim ''hello''))"
    by (simp add: returning_def orElseGet_def nothing_simps call_Some giving_def)
  from n bl sv have "fst (run ?op 0 ?n) = fst (run ?op 0 nothing)"
    by blast
  with on have onn: "fst (run ?op 0 ?n) = Inr (RValue (Prim ''hello''))"
    by simp
  from p h have "of_Optional (Prim ''hello'') (init (0::nat)) = (Inr (Ref 0), hello)"
    by simp
  moreover from u e have "ofNullable Undefined (init (0::nat)) = (Ref 0 :: string jsval, nothing)"
    by simp
  ultimately show ?thesis
    using h r sv bl on onn by simp
qed

end
